theory Spec2Isabelle
  imports Main "HOL-Library.List_Lexorder"
begin

section \<open>JavaScript values\<close>

text \<open>
  A JavaScript string is modelled as the list of its code points, which is what the
  \<^verbatim>\<open>u\<close>-flagged regular expression of \<^verbatim>\<open>syncTaskCustomFields\<close> works on.
  ASCII literals of the source are written \<open>u ''...''\<close>.
\<close>

type_synonym ustring = "nat list"

definition u :: "string \<Rightarrow> ustring" where
  "u s = map of_char s"

text \<open>
  Values as the service sees them: what \<^verbatim>\<open>JSON.parse\<close> delivers, plus
  \<^verbatim>\<open>undefined\<close>, \<^verbatim>\<open>NaN\<close> and Date objects. Numbers are mathematical
  integers. An object is the association list of its own properties in property order;
  the special key \<^verbatim>\<open>__proto__\<close> and the placing of integer-like keys before the
  others are not modelled.
  A Date object is represented by what it can be observed to be: the value its
  \<^verbatim>\<open>toJSON\<close> returns and the text its \<^verbatim>\<open>toString\<close> returns.
\<close>

datatype jsval =
    Undefined
  | Null
  | Bool bool
  | Num int
  | NaN
  | Str ustring
  | Arr "jsval list"
  | Obj "(ustring \<times> jsval) list"
  | DateObj jsval ustring

fun truthy :: "jsval \<Rightarrow> bool" where
  "truthy Undefined = False"
| "truthy Null = False"
| "truthy (Bool b) = b"
| "truthy (Num n) = (n \<noteq> 0)"
| "truthy NaN = False"
| "truthy (Str s) = (s \<noteq> [])"
| "truthy (Arr xs) = True"
| "truthy (Obj kvs) = True"
| "truthy (DateObj j s) = True"

text \<open>\<^verbatim>\<open>a || b\<close>\<close>

definition or_else :: "jsval \<Rightarrow> jsval \<Rightarrow> jsval" where
  "or_else a b = (if truthy a then a else b)"

text \<open>\<^verbatim>\<open>x === null || x === undefined\<close>\<close>

definition nullish :: "jsval \<Rightarrow> bool" where
  "nullish v = (v = Null \<or> v = Undefined)"

text \<open>
  Property read \<^verbatim>\<open>x.k\<close> on a value that is neither \<^verbatim>\<open>null\<close> nor
  \<^verbatim>\<open>undefined\<close> (there the read throws, which every caller below writes out).
  The keys read by the source are data keys, which primitives, arrays and dates do not
  define.
\<close>

fun get :: "jsval \<Rightarrow> ustring \<Rightarrow> jsval" where
  "get (Obj kvs) k = (case map_of kvs k of None \<Rightarrow> Undefined | Some v \<Rightarrow> v)"
| "get v k = Undefined"

text \<open>\<^verbatim>\<open>x?.k\<close>\<close>

definition get_opt :: "jsval \<Rightarrow> ustring \<Rightarrow> jsval" where
  "get_opt x k = (if nullish x then Undefined else get x k)"

text \<open>Assignment \<^verbatim>\<open>o[k] = v\<close>: an existing key keeps its place, a new one is appended.\<close>

fun obj_set :: "ustring \<Rightarrow> jsval \<Rightarrow> (ustring \<times> jsval) list \<Rightarrow> (ustring \<times> jsval) list" where
  "obj_set k v [] = [(k, v)]"
| "obj_set k v ((k', v') # kvs) = (if k' = k then (k, v) # kvs else (k', v') # obj_set k v kvs)"

section \<open>Errors\<close>

datatype sql_error =
    NotNullViolation
  | UniqueViolation
  | ForeignKeyViolation
  | UndefinedColumn
  | InvalidDatetime

text \<open>
  \<open>HttpError st data\<close> is an axios error with a response (\<^verbatim>\<open>error.response.status\<close>,
  \<^verbatim>\<open>error.response.data\<close>), \<open>NetworkError\<close> one without.
\<close>

datatype error =
    HttpError nat jsval
  | NetworkError
  | TypeError
  | SqlError sql_error

section \<open>The remote client (services/clickup.js)\<close>

text \<open>\<^verbatim>\<open>error.response?.status === 502 || error.response?.status === 429\<close>\<close>

fun transient :: "error \<Rightarrow> bool" where
  "transient (HttpError st d) = (st = 502 \<or> st = 429)"
| "transient e = False"

text \<open>
  \<^verbatim>\<open>retryRequest(fn, retries, delay)\<close>. The request \<open>fn\<close> is given by the outcome of
  each of its invocations, \<open>fn i\<close> being the outcome of the invocation made in iteration
  \<open>i\<close>. The result is what the call returns or throws (\<open>Inr None\<close> when the loop falls
  through and the function returns \<^verbatim>\<open>undefined\<close>), together with the delays slept, in
  order, in milliseconds.
\<close>

function retry_from :: "(nat \<Rightarrow> error + 'a) \<Rightarrow> nat \<Rightarrow> nat \<Rightarrow> nat \<Rightarrow> (error + 'a option) \<times> nat list" where
  "retry_from fn retries delay i =
     (if i < retries then
        (case fn i of
           Inr v \<Rightarrow> (Inr (Some v), [])
         | Inl e \<Rightarrow>
             if transient e \<and> i < retries - 1 then
               (case retry_from fn retries delay (i + 1) of
                  (r, ds) \<Rightarrow> (r, delay * (i + 1) # ds))
             else (Inl e, []))
      else (Inr None, []))"
  by pat_completeness auto
termination
  by (relation "measure (\<lambda>(fn, retries, delay, i). retries - i)") auto

declare retry_from.simps [simp del]

definition retryRequest :: "(nat \<Rightarrow> error + 'a) \<Rightarrow> nat \<Rightarrow> nat \<Rightarrow> (error + 'a option) \<times> nat list" where
  "retryRequest fn retries delay = retry_from fn retries delay 0"

text \<open>Decimal digits of a natural number, as \<^verbatim>\<open>String(n)\<close> writes them.\<close>

function decimal :: "nat \<Rightarrow> ustring" where
  "decimal n = (if n < 10 then [48 + n] else decimal (n div 10) @ [48 + n mod 10])"
  by pat_completeness auto
termination
  by (relation "measure (\<lambda>n. n)") auto

declare decimal.simps [simp del]

text \<open>The UTF-16 code units of a string, which is what indexing a string counts.\<close>

definition utf16 :: "ustring \<Rightarrow> nat list" where
  "utf16 s = concat (map (\<lambda>c. if c < 65536 then [c]
                 else [55296 + (c - 65536) div 1024, 56320 + (c - 65536) mod 1024]) s)"

text \<open>
  The own enumerable properties that object spread \<^verbatim>\<open>{...x}\<close> copies: those of an
  object, the indexed elements of an array, the indexed code units of a string, none of
  any other value.
\<close>

definition indexed :: "jsval list \<Rightarrow> (ustring \<times> jsval) list" where
  "indexed xs = map (\<lambda>i. (decimal i, xs ! i)) [0..<length xs]"

fun spread :: "jsval \<Rightarrow> (ustring \<times> jsval) list" where
  "spread (Obj kvs) = kvs"
| "spread (Arr xs) = indexed xs"
| "spread (Str s) = indexed (map (\<lambda>c. Str [c]) (utf16 s))"
| "spread v = []"

text \<open>
  The detail object \<^verbatim>\<open>getTaskDetails\<close> builds from \<^verbatim>\<open>response.data\<close>. Reading
  \<^verbatim>\<open>response.data.name\<close> for the log throws when the data is \<^verbatim>\<open>null\<close> or
  \<^verbatim>\<open>undefined\<close>.
\<close>

definition task_detail :: "jsval \<Rightarrow> error + jsval" where
  "task_detail data =
     (if nullish data then Inl TypeError
      else Inr (Obj
        (obj_set (u ''custom_type'')
           (if truthy (get data (u ''custom_type'')) then
              Obj [(u ''id'', get (get data (u ''custom_type'')) (u ''id'')),
                   (u ''name'', get (get data (u ''custom_type'')) (u ''name'')),
                   (u ''color'', get (get data (u ''custom_type'')) (u ''color''))]
            else Null)
        (obj_set (u ''parent'') (or_else (get data (u ''parent'')) Null)
        (obj_set (u ''custom_fields'') (or_else (get data (u ''custom_fields'')) (Arr []))
        (spread data))))))"

text \<open>
  \<^verbatim>\<open>getTaskDetails(taskId)\<close>: the GET of the task, under \<^verbatim>\<open>retryRequest(..., 3, 2000)\<close>.
  \<open>http i\<close> is the outcome of the \<open>i\<close>-th GET: the response data, or the error axios
  throws. An error of the request is logged and thrown again.
\<close>

definition getTaskDetails :: "(nat \<Rightarrow> error + jsval) \<Rightarrow> (error + jsval) \<times> nat list" where
  "getTaskDetails http =
     (case retryRequest http 3 2000 of
        (Inl e, ds) \<Rightarrow> (Inl e, ds)
      | (Inr None, ds) \<Rightarrow> (Inl TypeError, ds)
      | (Inr (Some data), ds) \<Rightarrow> (task_detail data, ds))"

section \<open>Strings\<close>

text \<open>
  The code points removed by the regular expression of \<^verbatim>\<open>syncTaskCustomFields\<close>
  (seven ranges, as written there).
\<close>

definition decorative :: "nat \<Rightarrow> bool" where
  "decorative c =
     ((0x1F300 \<le> c \<and> c \<le> 0x1F9FF) \<or> (0x1F600 \<le> c \<and> c \<le> 0x1F64F)
      \<or> (0x1F680 \<le> c \<and> c \<le> 0x1F6FF) \<or> (0x2600 \<le> c \<and> c \<le> 0x26FF)
      \<or> (0x2700 \<le> c \<and> c \<le> 0x27BF) \<or> (0x1F900 \<le> c \<and> c \<le> 0x1F9FF)
      \<or> (0x1F1E0 \<le> c \<and> c \<le> 0x1F1FF))"

text \<open>White space and line terminators, which \<^verbatim>\<open>trim\<close> and \<^verbatim>\<open>parseInt\<close> skip.\<close>

definition white_space :: "nat \<Rightarrow> bool" where
  "white_space c =
     (c \<in> {0x9, 0xA, 0xB, 0xC, 0xD, 0x20, 0xA0, 0x1680, 0x2028, 0x2029, 0x202F, 0x205F,
            0x3000, 0xFEFF} \<or> (0x2000 \<le> c \<and> c \<le> 0x200A))"

definition trim :: "ustring \<Rightarrow> ustring" where
  "trim s = rev (dropWhile white_space (rev (dropWhile white_space s)))"

text \<open>\<^verbatim>\<open>field.name.replace(/.../gu, '').trim()\<close>\<close>

definition clean_name :: "ustring \<Rightarrow> ustring" where
  "clean_name nm = trim (filter (\<lambda>c. \<not> decorative c) nm)"

fun join :: "ustring \<Rightarrow> ustring list \<Rightarrow> ustring" where
  "join sep [] = []"
| "join sep [s] = s"
| "join sep (s # t # ss) = s @ sep @ join sep (t # ss)"

text \<open>\<^verbatim>\<open>String(value)\<close>\<close>

fun js_String :: "jsval \<Rightarrow> ustring" where
  "js_String Undefined = u ''undefined''"
| "js_String Null = u ''null''"
| "js_String (Bool b) = (if b then u ''true'' else u ''false'')"
| "js_String (Num n) = (if n < 0 then u ''-'' @ decimal (nat (- n)) else decimal (nat n))"
| "js_String NaN = u ''NaN''"
| "js_String (Str s) = s"
| "js_String (Arr xs) = join (u '','') (map (\<lambda>x. if x = Null \<or> x = Undefined then [] else js_String x) xs)"
| "js_String (Obj kvs) = u ''[object Object]''"
| "js_String (DateObj j s) = s"

text \<open>
  \<^verbatim>\<open>parseInt(value, 10)\<close>: the text of the value, leading white space skipped, an
  optional sign, then the longest run of decimal digits; \<^verbatim>\<open>NaN\<close> when there is none.
\<close>

definition is_digit :: "nat \<Rightarrow> bool" where
  "is_digit c = (48 \<le> c \<and> c \<le> 57)"

definition digits_value :: "nat list \<Rightarrow> int" where
  "digits_value ds = foldl (\<lambda>a c. a * 10 + (int c - 48)) 0 ds"

definition parseInt10 :: "jsval \<Rightarrow> jsval" where
  "parseInt10 v =
     (let s = dropWhile white_space (js_String v);
          neg = (s \<noteq> [] \<and> hd s = 45);
          s' = (if s \<noteq> [] \<and> (hd s = 45 \<or> hd s = 43) then tl s else s);
          ds = takeWhile is_digit s'
      in if ds = [] then NaN
         else Num (if neg then - digits_value ds else digits_value ds))"

text \<open>
  \<^verbatim>\<open>JSON.stringify(v)\<close>, given by the JSON document it writes (\<open>None\<close> when it returns
  \<^verbatim>\<open>undefined\<close>): properties holding \<^verbatim>\<open>undefined\<close> are left out, \<^verbatim>\<open>undefined\<close>
  in an array and \<^verbatim>\<open>NaN\<close> become \<^verbatim>\<open>null\<close>, a Date is what its \<^verbatim>\<open>toJSON\<close>
  returns, and the properties of an object are written in property order. Two values
  have the same serialisation exactly when their documents are equal.
\<close>

fun json_doc :: "jsval \<Rightarrow> jsval option" where
  "json_doc Undefined = None"
| "json_doc Null = Some Null"
| "json_doc (Bool b) = Some (Bool b)"
| "json_doc (Num n) = Some (Num n)"
| "json_doc NaN = Some Null"
| "json_doc (Str s) = Some (Str s)"
| "json_doc (Arr xs) = Some (Arr (map (\<lambda>x. case json_doc x of None \<Rightarrow> Null | Some d \<Rightarrow> d) xs))"
| "json_doc (Obj kvs) =
     Some (Obj (concat (map (\<lambda>kv. case json_doc (snd kv) of None \<Rightarrow> [] | Some d \<Rightarrow> [(fst kv, d)]) kvs)))"
| "json_doc (DateObj j s) = json_doc j"

text \<open>
  A parameter bound to a statement: the driver sends \<^verbatim>\<open>undefined\<close> as \<^verbatim>\<open>NULL\<close>.
  A column holds the value that was bound to it; the casts the server applies to a bound
  value, and the errors such a cast can raise, are outside this model.
\<close>

definition param :: "jsval \<Rightarrow> jsval" where
  "param v = (if v = Undefined then Null else v)"

text \<open>The parameter \<^verbatim>\<open>JSON.stringify(v)\<close> bound to a JSONB column.\<close>

definition json_param :: "jsval \<Rightarrow> jsval" where
  "json_param v = (case json_doc v of None \<Rightarrow> Null | Some d \<Rightarrow> d)"

text \<open>\<^verbatim>\<open>COALESCE($n, column)\<close>\<close>

definition coalesce :: "jsval \<Rightarrow> jsval \<Rightarrow> jsval" where
  "coalesce p old = (if p = Null then old else p)"

text \<open>
  A Date whose time value is \<^verbatim>\<open>NaN\<close>, an \<^verbatim>\<open>Invalid Date\<close>: the only Date whose
  \<^verbatim>\<open>toJSON\<close> returns \<^verbatim>\<open>null\<close>. The server does not accept it for a timestamp column
  (SQLSTATE 22007, \<open>InvalidDatetime\<close>).
\<close>

definition invalid_date :: "jsval \<Rightarrow> bool" where
  "invalid_date v = (case v of DateObj j s \<Rightarrow> j = Null | _ \<Rightarrow> False)"

text \<open>
  A parameter as the driver sends it for the \<^verbatim>\<open>TEXT\<close> columns of the placeholder
  insert: \<^verbatim>\<open>null\<close> and \<^verbatim>\<open>undefined\<close> are \<^verbatim>\<open>NULL\<close>, a string is sent as it is, a
  number or a boolean as its \<^verbatim>\<open>toString()\<close>, and an object, an array or a Date as the
  text the driver makes of it, which the storage then holds. The driver is not part of
  the repository: \<open>bind\<close> is that text.
\<close>

definition text_param :: "(jsval \<Rightarrow> ustring) \<Rightarrow> jsval \<Rightarrow> jsval" where
  "text_param bind v =
     (case v of
        Undefined \<Rightarrow> Null
      | Null \<Rightarrow> Null
      | Str s \<Rightarrow> Str s
      | Bool b \<Rightarrow> Str (js_String v)
      | Num n \<Rightarrow> Str (js_String v)
      | NaN \<Rightarrow> Str (js_String v)
      | _ \<Rightarrow> Str (bind v))"

section \<open>The field catalogue (mapFieldName, normalizeFieldValue)\<close>

record field_mapping =
  fm_name :: ustring
  fm_type :: jsval
  fm_transform :: "(jsval \<Rightarrow> jsval) option"

text \<open>The four coercions of the table; \<open>newDate\<close> is the platform's \<^verbatim>\<open>new Date(value)\<close>.\<close>

definition to_text :: "jsval \<Rightarrow> jsval" where
  "to_text v = Str (js_String v)"

definition to_timestamp :: "(jsval \<Rightarrow> jsval) \<Rightarrow> jsval \<Rightarrow> jsval" where
  "to_timestamp newDate v = (if truthy v then newDate v else Null)"

definition to_decimal :: "jsval \<Rightarrow> jsval" where
  "to_decimal v = (case v of Num n \<Rightarrow> v | NaN \<Rightarrow> v | _ \<Rightarrow> Null)"

definition to_integer :: "jsval \<Rightarrow> jsval" where
  "to_integer v = parseInt10 v"

text \<open>The table \<^verbatim>\<open>fieldMap\<close>: clean name, column (when promoted), type, coercion.\<close>

definition fieldMap :: "(jsval \<Rightarrow> jsval) \<Rightarrow> (ustring \<times> ustring option \<times> ustring \<times> (jsval \<Rightarrow> jsval)) list" where
  "fieldMap newDate =
     [(u ''Status Updates'', Some (u ''status_updates''), u ''text'', to_text),
      (u ''Client'', Some (u ''client''), u ''text'', to_text),
      (u ''Start Job!'', Some (u ''start_job''), u ''timestamp'', to_timestamp newDate),
      (u ''Est. Revenue'', Some (u ''est_revenue''), u ''decimal'', to_decimal),
      (u ''Est. Cost'', Some (u ''est_cost''), u ''decimal'', to_decimal),
      (u ''Reason for Closed'', Some (u ''reason_for_closed''), u ''text'', to_text),
      (u ''Job Name'', Some (u ''job_name''), u ''text'', to_text),
      (u ''Milestone Date'', Some (u ''milestone_date''), u ''timestamp'', to_timestamp newDate),
      (u ''Hours per Day'', Some (u ''hours_per_day''), u ''integer'', to_integer),
      (u ''Expected Revenue'', None, u ''decimal'', to_decimal),
      (u ''Current Fee'', None, u ''decimal'', to_decimal),
      (u ''Fee'', None, u ''decimal'', to_decimal),
      (u ''Time Left'', None, u ''text'', to_text),
      (u ''Estimated Fee'', None, u ''decimal'', to_decimal),
      (u ''Update Email'', None, u ''text'', to_text),
      (u ''Job Budget'', None, u ''decimal'', to_decimal)]"

text \<open>
  The names every object literal inherits: \<^verbatim>\<open>fieldMap[cleanName]\<close> is truthy for
  them too, with no column, type or coercion.
\<close>

definition inherited_keys :: "ustring list" where
  "inherited_keys =
     [u ''constructor'', u ''__defineGetter__'', u ''__defineSetter__'', u ''hasOwnProperty'',
      u ''__lookupGetter__'', u ''__lookupSetter__'', u ''isPrototypeOf'',
      u ''propertyIsEnumerable'', u ''toString'', u ''valueOf'', u ''__proto__'',
      u ''toLocaleString'']"

definition mapFieldName :: "(jsval \<Rightarrow> jsval) \<Rightarrow> ustring \<Rightarrow> field_mapping option" where
  "mapFieldName newDate cleanName =
     (case map_of (fieldMap newDate) cleanName of
        Some (column, ty, transform) \<Rightarrow>
          Some \<lparr>fm_name = (case column of Some c \<Rightarrow> if c \<noteq> [] then c else cleanName | None \<Rightarrow> cleanName),
                fm_type = Str ty, fm_transform = Some transform\<rparr>
      | None \<Rightarrow>
          if cleanName \<in> set inherited_keys
          then Some \<lparr>fm_name = cleanName, fm_type = Undefined, fm_transform = None\<rparr>
          else None)"

text \<open>
  \<^verbatim>\<open>normalizeFieldValue(field, mapping)\<close>; \<open>None\<close> is a call without the second
  argument. None of the four coercions throws, so the \<^verbatim>\<open>catch\<close> branch has no case.
\<close>

definition normalizeFieldValue :: "jsval \<Rightarrow> field_mapping option \<Rightarrow> jsval" where
  "normalizeFieldValue field mapping =
     (case mapping of
        None \<Rightarrow> Null
      | Some m \<Rightarrow>
          (case fm_transform m of
             None \<Rightarrow> Null
           | Some transform \<Rightarrow> transform (get field (u ''value''))))"

section \<open>Storage (db/index.js and the task-type migration)\<close>

text \<open>
  A row of \<^verbatim>\<open>clickup_task\<close> is the object the driver returns for it: a function from
  column names to values, \<^verbatim>\<open>NULL\<close> being \<open>Null\<close> and a name that is no column
  \<open>Undefined\<close>. The columns are those of \<^verbatim>\<open>initializeTables\<close> and of the task-type
  migration.
\<close>

type_synonym row = "string \<Rightarrow> jsval"

definition task_columns :: "string list" where
  "task_columns =
     [''id'', ''_airbyte_raw_id'', ''_airbyte_extracted_at'', ''name'', ''text_content'',
      ''description'', ''status'', ''date_created'', ''date_updated'', ''date_closed'',
      ''creator'', ''assignees'', ''checklists'', ''tags'', ''parent'', ''priority'',
      ''due_date'', ''start_date'', ''points'', ''time_estimate'', ''time_spent'',
      ''custom_fields'', ''relationships'', ''field_values'', ''custom_type'', ''list'',
      ''folder'', ''space'', ''url'', ''updated_at'', ''task_type_id'', ''task_type_name'']"

definition null_row :: row where
  "null_row c = (if c \<in> set task_columns then Null else Undefined)"

record type_row =
  ty_id :: jsval
  ty_name :: jsval
  ty_color :: jsval
  ty_status :: jsval
  ty_orderindex :: jsval
  ty_workspace_id :: jsval
  ty_updated_at :: jsval

record change_row =
  ch_task_id :: jsval
  ch_field_name :: string
  ch_old_value :: "jsval option"
  ch_new_value :: "jsval option"

record db =
  clickup_task :: "row list"
  task_types :: "type_row list"
  field_changes :: "change_row list"

text \<open>\<^verbatim>\<open>SELECT EXISTS(SELECT 1 FROM clickup_task WHERE id = $1)\<close>\<close>

definition checkTaskExists :: "ustring \<Rightarrow> db \<Rightarrow> bool" where
  "checkTaskExists taskId d = (\<exists>r \<in> set (clickup_task d). r ''id'' = Str taskId)"

text \<open>\<^verbatim>\<open>SELECT * FROM clickup_task WHERE id = $1\<close>, \<^verbatim>\<open>rows[0] || null\<close>\<close>

definition getTaskById :: "ustring \<Rightarrow> db \<Rightarrow> row option" where
  "getTaskById taskId d = find (\<lambda>r. r ''id'' = Str taskId) (clickup_task d)"

text \<open>
  \<^verbatim>\<open>UPDATE clickup_task SET ... WHERE id = $1 RETURNING *\<close>: the table after the
  assignment \<open>f\<close> has been applied to the rows whose id is \<open>taskId\<close>.
\<close>

definition update_where_id :: "ustring \<Rightarrow> (row \<Rightarrow> row) \<Rightarrow> row list \<Rightarrow> row list" where
  "update_where_id taskId f rows = map (\<lambda>r. if r ''id'' = Str taskId then f r else r) rows"

text \<open>What the service is given from outside during one run of a sync.\<close>

record env =
  detail_http :: "nat \<Rightarrow> error + jsval"
  types_http :: "error + jsval"
  workspaceId :: jsval
  newDate :: "jsval \<Rightarrow> jsval"
  bind_text :: "jsval \<Rightarrow> ustring"
  iso_insert :: ustring
  iso_field :: "nat \<Rightarrow> ustring"
  ts_insert :: jsval
  ts_types :: jsval
  ts_update :: jsval

text \<open>
  \<open>detail_http\<close> and \<open>types_http\<close> are the answers of the remote API (to each GET of the
  task, and to the GET of the type catalogue), \<open>workspaceId\<close> is
  \<^verbatim>\<open>config.clickup.workspaceId\<close>, \<open>newDate v\<close> is the Date object \<^verbatim>\<open>new Date(v)\<close>,
  \<open>bind_text v\<close> is the text the driver sends for an object, an array or a Date bound to
  a statement, \<open>iso_insert\<close> and \<open>iso_field i\<close> are the values of
  \<^verbatim>\<open>new Date().toISOString()\<close> in the insert and for the \<open>i\<close>-th custom field, and
  \<open>ts_insert\<close>, \<open>ts_types\<close>, \<open>ts_update\<close> are \<^verbatim>\<open>CURRENT_TIMESTAMP\<close> in the insert, in the
  catalogue refresh and in the field-data update.
\<close>

subsection \<open>updateTaskCustomFields\<close>

record field_data =
  customFields :: "(ustring \<times> jsval) list"
  relationships :: "(ustring \<times> jsval) list"
  fieldValues :: "(ustring \<times> jsval) list"
  fd_name :: jsval
  fd_status :: jsval
  fd_description :: jsval

definition field_data_assignment :: "field_data \<Rightarrow> jsval \<Rightarrow> row \<Rightarrow> row" where
  "field_data_assignment fieldData now r =
     r(''custom_fields'' := json_param (Obj (customFields fieldData)),
       ''relationships'' := json_param (Obj (relationships fieldData)),
       ''field_values'' := json_param (Obj (fieldValues fieldData)),
       ''status'' := coalesce (param (fd_status fieldData)) (r ''status''),
       ''name'' := coalesce (param (fd_name fieldData)) (r ''name''),
       ''description'' := coalesce (param (fd_description fieldData)) (r ''description''),
       ''date_updated'' := now,
       ''_airbyte_extracted_at'' := now,
       ''updated_at'' := now)"

text \<open>
  The result is \<^verbatim>\<open>result.rows[0]\<close>, or \<open>None\<close> for the \<^verbatim>\<open>null\<close> returned after the
  rollback when no row was updated.
\<close>

definition updateTaskCustomFields :: "ustring \<Rightarrow> field_data \<Rightarrow> jsval \<Rightarrow> db \<Rightarrow> row option \<times> db" where
  "updateTaskCustomFields taskId fieldData now d =
     (let rows' = update_where_id taskId (field_data_assignment fieldData now) (clickup_task d)
      in if \<not> checkTaskExists taskId d then (None, d)
         else (find (\<lambda>r. r ''id'' = Str taskId) rows', d\<lparr>clickup_task := rows'\<rparr>))"

subsection \<open>updateTaskField\<close>

text \<open>
  The helper reads the row, compares the serialisations, inserts the ledger record and
  then updates the column. The column name is spliced into the statement, so the update
  raises when the name is no column of the table, or is \<^verbatim>\<open>updated_at\<close>, which the
  statement then assigns twice. When a row is updated the constraints of the table are
  checked on the new value: \<^verbatim>\<open>NOT NULL\<close> on \<^verbatim>\<open>id\<close>, \<^verbatim>\<open>_airbyte_raw_id\<close> and
  \<^verbatim>\<open>_airbyte_extracted_at\<close>, the primary key on \<^verbatim>\<open>id\<close>, the foreign key on
  \<^verbatim>\<open>task_type_id\<close>. An error leaves the function after the ledger insert; the helper
  itself neither commits nor rolls back.
\<close>

definition column_violation :: "ustring \<Rightarrow> string \<Rightarrow> jsval \<Rightarrow> db \<Rightarrow> sql_error option" where
  "column_violation taskId fieldName v d =
     (if fieldName \<notin> set task_columns \<or> fieldName = ''updated_at'' then Some UndefinedColumn
      else if \<not> checkTaskExists taskId d then None
      else if fieldName \<in> {''id'', ''_airbyte_raw_id'', ''_airbyte_extracted_at''} \<and> v = Null
        then Some NotNullViolation
      else if fieldName = ''id'' \<and> v \<noteq> Str taskId \<and> (\<exists>r \<in> set (clickup_task d). r ''id'' = v)
        then Some UniqueViolation
      else if fieldName = ''task_type_id'' \<and> v \<noteq> Null \<and> v \<notin> ty_id ` set (task_types d)
        then Some ForeignKeyViolation
      else None)"

definition updateTaskField :: "ustring \<Rightarrow> string \<Rightarrow> jsval \<Rightarrow> jsval \<Rightarrow> db \<Rightarrow> error option \<times> db" where
  "updateTaskField taskId fieldName newValue now d =
     (let currentValue = (case getTaskById taskId d of None \<Rightarrow> Undefined | Some r \<Rightarrow> r fieldName)
      in if json_doc currentValue \<noteq> json_doc newValue then
           (let d1 = d\<lparr>field_changes := field_changes d @
                      [\<lparr>ch_task_id = Str taskId, ch_field_name = fieldName,
                        ch_old_value = json_doc currentValue, ch_new_value = json_doc newValue\<rparr>]\<rparr>
            in case column_violation taskId fieldName (param newValue) d1 of
                 Some err \<Rightarrow> (Some (SqlError err), d1)
               | None \<Rightarrow>
                   (None, d1\<lparr>clickup_task :=
                      update_where_id taskId (\<lambda>r. r(fieldName := param newValue, ''updated_at'' := now))
                        (clickup_task d1)\<rparr>))
         else (None, d))"

subsection \<open>updateTaskRelationships\<close>

text \<open>
  The statement assigns the column \<^verbatim>\<open>parent_id\<close>, which the table of
  \<^verbatim>\<open>initializeTables\<close> does not have; that table is created only when the importer
  has not created it before. \<open>columns\<close> are the columns of the table as it is: without
  \<^verbatim>\<open>parent_id\<close> the statement raises, and the error is thrown after the rollback.
  The parent is set to \<^verbatim>\<open>null\<close> when it is truthy and no row has it as id, and the
  type id is read from the type table by name (a \<^verbatim>\<open>NULL\<close> name matches no type, and
  \<^verbatim>\<open>LIMIT 1\<close> takes the first match in the order of the table), so the statement
  breaks no foreign key and the branch for SQLSTATE 23503 has no case here. Reading \<^verbatim>\<open>relationships.parent_id\<close>
  throws when \<^verbatim>\<open>relationships\<close> is \<^verbatim>\<open>null\<close> or \<^verbatim>\<open>undefined\<close>. The result is
  \<^verbatim>\<open>result.rows[0]\<close>, or \<open>None\<close> for the \<^verbatim>\<open>null\<close> returned when the task has no row.
\<close>

definition updateTaskRelationships ::
  "string list \<Rightarrow> ustring \<Rightarrow> jsval \<Rightarrow> jsval \<Rightarrow> db \<Rightarrow> (error + row option) \<times> db" where
  "updateTaskRelationships columns taskId rel now d =
     (if \<not> checkTaskExists taskId d then (Inr None, d)
      else if nullish rel then (Inl TypeError, d)
      else if ''parent_id'' \<notin> set columns then (Inl (SqlError UndefinedColumn), d)
      else
        (let parent_id = (if truthy (get rel (u ''parent_id''))
                             \<and> \<not> (\<exists>r \<in> set (clickup_task d). r ''id'' = get rel (u ''parent_id''))
                          then Null else param (get rel (u ''parent_id'')));
             custom_type = param (get rel (u ''custom_type''));
             type_id = (if custom_type = Null then Null
                        else (case find (\<lambda>t. ty_name t = custom_type) (task_types d) of
                                None \<Rightarrow> Null | Some t \<Rightarrow> ty_id t));
             rows' = update_where_id taskId
                       (\<lambda>r. r(''parent_id'' := parent_id, ''task_type_id'' := type_id,
                              ''updated_at'' := now))
                       (clickup_task d)
         in (Inr (find (\<lambda>r. r ''id'' = Str taskId) rows'), d\<lparr>clickup_task := rows'\<rparr>)))"

subsection \<open>cleanOldData\<close>

text \<open>
  The retention sweep: the rows whose \<^verbatim>\<open>updated_at\<close> is older than the retention period
  are deleted, then the types that no remaining row refers to. \<open>expired t\<close> is the
  comparison \<^verbatim>\<open>t < NOW() - INTERVAL '... days'\<close> of the server.
\<close>

definition cleanOldData :: "(jsval \<Rightarrow> bool) \<Rightarrow> db \<Rightarrow> db" where
  "cleanOldData expired d =
     (let rows' = filter (\<lambda>r. \<not> expired (r ''updated_at'')) (clickup_task d)
      in d\<lparr>clickup_task := rows',
           task_types := filter (\<lambda>t. \<exists>r \<in> set rows'. r ''task_type_id'' \<noteq> Null
                                        \<and> r ''task_type_id'' = ty_id t) (task_types d)\<rparr>)"

section \<open>The type catalogue (services/taskTypeSync.js)\<close>

text \<open>\<^verbatim>\<open>getCustomTaskTypes\<close>: \<^verbatim>\<open>response.data.task_types || []\<close>\<close>

definition getCustomTaskTypes :: "error + jsval \<Rightarrow> error + jsval" where
  "getCustomTaskTypes outcome =
     (case outcome of
        Inl e \<Rightarrow> Inl e
      | Inr data \<Rightarrow> if nullish data then Inl TypeError
                    else Inr (or_else (get data (u ''task_types'')) (Arr [])))"

text \<open>The elements \<^verbatim>\<open>for (const type of types)\<close> visits; a value that is not iterable throws.\<close>

fun iterate :: "jsval \<Rightarrow> error + jsval list" where
  "iterate (Arr xs) = Inr xs"
| "iterate (Str s) = Inr (map (\<lambda>c. Str [c]) s)"
| "iterate v = Inl TypeError"

definition type_params :: "env \<Rightarrow> jsval \<Rightarrow> type_row" where
  "type_params e t =
     \<lparr>ty_id = param (get t (u ''id'')),
      ty_name = param (get t (u ''name'')),
      ty_color = param (or_else (get t (u ''color'')) Null),
      ty_status = param (or_else (get t (u ''status'')) (Str (u ''active''))),
      ty_orderindex = param (or_else (get t (u ''orderindex'')) (Num 0)),
      ty_workspace_id = param (workspaceId e),
      ty_updated_at = ts_types e\<rparr>"

text \<open>\<^verbatim>\<open>INSERT ... ON CONFLICT (id) DO UPDATE SET\<close> every other column.\<close>

fun upsert :: "type_row \<Rightarrow> type_row list \<Rightarrow> type_row list" where
  "upsert r [] = [r]"
| "upsert r (x # xs) = (if ty_id x = ty_id r then r # xs else x # upsert r xs)"

text \<open>
  The loop of upserts. Reading \<^verbatim>\<open>type.id\<close> of a \<^verbatim>\<open>null\<close> element throws; the
  columns \<^verbatim>\<open>id\<close>, \<^verbatim>\<open>name\<close> and \<^verbatim>\<open>workspace_id\<close> are \<^verbatim>\<open>NOT NULL\<close>.
\<close>

fun upsert_all :: "env \<Rightarrow> jsval list \<Rightarrow> type_row list \<Rightarrow> error + type_row list" where
  "upsert_all e [] tt = Inr tt"
| "upsert_all e (t # ts) tt =
     (if nullish t then Inl TypeError
      else if ty_id (type_params e t) = Null \<or> ty_name (type_params e t) = Null
              \<or> ty_workspace_id (type_params e t) = Null
      then Inl (SqlError NotNullViolation)
      else upsert_all e ts (upsert (type_params e t) tt))"

text \<open>
  \<^verbatim>\<open>DELETE FROM task_types WHERE id NOT IN (...)\<close>. The column
  \<^verbatim>\<open>clickup_task.task_type_id\<close> references \<^verbatim>\<open>task_types(id)\<close>, so deleting a type
  that a task row refers to raises.
\<close>

definition delete_types_not_in :: "jsval list \<Rightarrow> row list \<Rightarrow> type_row list \<Rightarrow> error + type_row list" where
  "delete_types_not_in ids tasks tt =
     (if \<exists>r \<in> set tt. ty_id r \<notin> set ids \<and> (\<exists>t \<in> set tasks. t ''task_type_id'' = ty_id r)
      then Inl (SqlError ForeignKeyViolation)
      else Inr (filter (\<lambda>r. ty_id r \<in> set ids) tt))"

text \<open>
  \<^verbatim>\<open>TaskTypeSync.syncTaskTypes\<close>. Every error rolls the transaction back and is thrown
  again, so the state is then the one before the call.
\<close>

definition syncTaskTypes :: "env \<Rightarrow> db \<Rightarrow> (error + jsval) \<times> db" where
  "syncTaskTypes e d =
     (case getCustomTaskTypes (types_http e) of
        Inl err \<Rightarrow> (Inl err, d)
      | Inr types \<Rightarrow>
          (case iterate types of
             Inl err \<Rightarrow> (Inl err, d)
           | Inr ts \<Rightarrow>
               (case upsert_all e ts (task_types d) of
                  Inl err \<Rightarrow> (Inl err, d)
                | Inr tt \<Rightarrow>
                    (case types of
                       Arr xs \<Rightarrow>
                         (let typeIds = map (\<lambda>t. param (get t (u ''id''))) xs
                          in if typeIds \<noteq> [] then
                               (case delete_types_not_in typeIds (clickup_task d) tt of
                                  Inl err \<Rightarrow> (Inl err, d)
                                | Inr tt' \<Rightarrow> (Inr types, d\<lparr>task_types := tt'\<rparr>))
                             else (Inr types, d\<lparr>task_types := tt\<rparr>))
                     | _ \<Rightarrow> (Inl TypeError, d)))))"

text \<open>
  \<^verbatim>\<open>TaskTypeSync.updateTaskTypeRelationships\<close>. The foreign key is checked for the rows
  the statement updates.
\<close>

definition updateTaskTypeRelationships :: "ustring \<Rightarrow> jsval \<Rightarrow> db \<Rightarrow> (error + row option) \<times> db" where
  "updateTaskTypeRelationships taskId typeId d =
     (let type_name = (case find (\<lambda>r. ty_id r = param typeId) (task_types d) of
                         None \<Rightarrow> Null | Some r \<Rightarrow> ty_name r);
          rows' = update_where_id taskId
                    (\<lambda>r. r(''task_type_id'' := param typeId, ''task_type_name'' := type_name))
                    (clickup_task d)
      in if checkTaskExists taskId d \<and> param typeId \<noteq> Null
            \<and> param typeId \<notin> ty_id ` set (task_types d)
         then (Inl (SqlError ForeignKeyViolation), d)
         else (Inr (find (\<lambda>r. r ''id'' = Str taskId) rows'), d\<lparr>clickup_task := rows'\<rparr>))"

section \<open>The merge engine (services/sync.js)\<close>

text \<open>
  The \<^verbatim>\<open>INSERT\<close> of the placeholder row. The four \<^verbatim>\<open>TEXT\<close> columns hold the text
  the driver sent, the timestamp columns \<^verbatim>\<open>date_created\<close> and \<^verbatim>\<open>date_updated\<close> the
  Date \<^verbatim>\<open>new Date(...)\<close> built from the upstream value, or \<^verbatim>\<open>NULL\<close> when that value
  is falsy. The statement raises when one of the two Dates is an \<^verbatim>\<open>Invalid Date\<close>, and
  when a row of that id is there (the primary key); the source logs the error and
  throws it again, and no row is written.
\<close>

definition placeholder_row :: "env \<Rightarrow> ustring \<Rightarrow> jsval \<Rightarrow> row" where
  "placeholder_row e taskId taskDetails =
     null_row
      (''id'' := Str taskId,
       ''_airbyte_raw_id'' := Str (u ''manual_'' @ taskId),
       ''_airbyte_extracted_at'' := Str (iso_insert e),
       ''name'' := text_param (bind_text e) (get taskDetails (u ''name'')),
       ''text_content'' := text_param (bind_text e) (get taskDetails (u ''text_content'')),
       ''description'' := text_param (bind_text e) (get taskDetails (u ''description'')),
       ''status'' := text_param (bind_text e) (get taskDetails (u ''status'')),
       ''date_created'' := (if truthy (get taskDetails (u ''date_created''))
                            then param (newDate e (get taskDetails (u ''date_created''))) else Null),
       ''date_updated'' := (if truthy (get taskDetails (u ''date_updated''))
                            then param (newDate e (get taskDetails (u ''date_updated''))) else Null),
       ''creator'' := json_param (or_else (get taskDetails (u ''creator'')) (Obj [])),
       ''custom_fields'' := json_param (Obj []),
       ''relationships'' := json_param (Obj []),
       ''field_values'' := json_param (Obj []),
       ''custom_type'' := json_param (or_else (get taskDetails (u ''custom_type'')) (Obj [])),
       ''updated_at'' := ts_insert e)"

definition invalid_dates :: "env \<Rightarrow> jsval \<Rightarrow> bool" where
  "invalid_dates e taskDetails =
     ((truthy (get taskDetails (u ''date_created''))
         \<and> invalid_date (newDate e (get taskDetails (u ''date_created''))))
      \<or> (truthy (get taskDetails (u ''date_updated''))
         \<and> invalid_date (newDate e (get taskDetails (u ''date_updated'')))))"

definition insert_placeholder :: "env \<Rightarrow> ustring \<Rightarrow> jsval \<Rightarrow> db \<Rightarrow> error + db" where
  "insert_placeholder e taskId taskDetails d =
     (if invalid_dates e taskDetails then Inl (SqlError InvalidDatetime)
      else if checkTaskExists taskId d then Inl (SqlError UniqueViolation)
      else Inr (d\<lparr>clickup_task := clickup_task d @ [placeholder_row e taskId taskDetails]\<rparr>))"

text \<open>
  The body of the loop over \<^verbatim>\<open>taskDetails.custom_fields\<close>, for the field at index
  \<open>i\<close>. Calling \<^verbatim>\<open>replace\<close> on a name that is truthy but no string throws. The mapping
  object returned by \<^verbatim>\<open>mapFieldName\<close> is used as the property key, which makes the
  key its text \<^verbatim>\<open>[object Object]\<close>.
\<close>

definition process_field :: "env \<Rightarrow> nat \<Rightarrow> jsval \<Rightarrow> field_data \<Rightarrow> error + field_data" where
  "process_field e i field fieldData =
     (if \<not> truthy field \<or> \<not> truthy (get field (u ''name'')) then Inr fieldData
      else
        (case get field (u ''name'') of
           Str nm \<Rightarrow>
             (let cleanName = clean_name nm;
                  fd1 = fieldData\<lparr>customFields :=
                          obj_set cleanName
                            (Obj [(u ''id'', get field (u ''id'')),
                                  (u ''type'', get field (u ''type'')),
                                  (u ''config'', or_else (get field (u ''type_config'')) (Obj [])),
                                  (u ''original_name'', get field (u ''name''))])
                            (customFields fieldData)\<rparr>
              in if \<not> nullish (get field (u ''value'')) then
                   (let normalizedValue = normalizeFieldValue field None
                    in if normalizedValue \<noteq> Null then
                         (case mapFieldName (newDate e) cleanName of
                            Some mappedField \<Rightarrow>
                              Inr (fd1\<lparr>fieldValues :=
                                     obj_set (u ''[object Object]'')
                                       (Obj [(u ''value'', normalizedValue),
                                             (u ''updated_at'', Str (iso_field e i)),
                                             (u ''field_id'', get field (u ''id'')),
                                             (u ''original_name'', get field (u ''name''))])
                                       (fieldValues fd1)\<rparr>)
                          | None \<Rightarrow> Inr fd1)
                       else Inr fd1)
                 else Inr fd1)
         | _ \<Rightarrow> Inl TypeError))"

fun process_fields :: "env \<Rightarrow> nat \<Rightarrow> jsval list \<Rightarrow> field_data \<Rightarrow> error + field_data" where
  "process_fields e i [] fieldData = Inr fieldData"
| "process_fields e i (field # rest) fieldData =
     (case process_field e i field fieldData of
        Inl err \<Rightarrow> Inl err
      | Inr fd \<Rightarrow> process_fields e (i + 1) rest fd)"

text \<open>
  The log of the custom fields received: \<^verbatim>\<open>taskDetails.custom_fields?.map(f => f.name ...)\<close>
  throws when the value has no \<^verbatim>\<open>map\<close> or when an element is \<^verbatim>\<open>null\<close>.
\<close>

definition log_custom_fields :: "jsval \<Rightarrow> error option" where
  "log_custom_fields cf =
     (if nullish cf then None
      else (case cf of
              Arr fs \<Rightarrow> if \<exists>f \<in> set fs. nullish f then Some TypeError else None
            | _ \<Rightarrow> Some TypeError))"

text \<open>The object \<^verbatim>\<open>fieldData\<close> as it is when the loop over the custom fields ends.\<close>

definition build_field_data :: "env \<Rightarrow> jsval \<Rightarrow> error + field_data" where
  "build_field_data e taskDetails =
     (let fieldData =
            \<lparr>customFields = [],
             relationships =
               [(u ''parent_id'', get taskDetails (u ''parent'')),
                (u ''custom_type'', or_else (get_opt (get taskDetails (u ''custom_type'')) (u ''name'')) Null)],
             fieldValues = [],
             fd_name = get taskDetails (u ''name''),
             fd_status = or_else (get_opt (get taskDetails (u ''status'')) (u ''status''))
                           (get taskDetails (u ''status'')),
             fd_description = get taskDetails (u ''description'')\<rparr>
      in case get taskDetails (u ''custom_fields'') of
           Arr fs \<Rightarrow> process_fields e 0 fs fieldData
         | _ \<Rightarrow> Inr fieldData)"

datatype failure =
    NotFoundInClickUp
  | CreateFindFailed
  | Thrown error

text \<open>
  What \<^verbatim>\<open>syncTaskCustomFields\<close> returns: \<open>SyncOk task\<close> is
  \<^verbatim>\<open>{ success: true, task }\<close>, with \<open>None\<close> for \<^verbatim>\<open>null\<close>, and \<open>SyncFailed f\<close> is
  \<^verbatim>\<open>{ success: false, error }\<close>.
\<close>

datatype sync_result =
    SyncOk "row option"
  | SyncFailed failure

fun success :: "sync_result \<Rightarrow> bool" where
  "success (SyncOk task) = True"
| "success (SyncFailed f) = False"

text \<open>
  The part of \<^verbatim>\<open>syncTaskCustomFields\<close> after the placeholder insert: the verification
  read, the catalogue refresh, the type link, the field data and the update.
  \<open>concurrent\<close> is what other sessions commit between the link and the update (the
  webhook racing a manual sync, the retention sweep); a run on its own has the identity
  there.
\<close>

definition sync_existing :: "env \<Rightarrow> (db \<Rightarrow> db) \<Rightarrow> ustring \<Rightarrow> jsval \<Rightarrow> db \<Rightarrow> sync_result \<times> db" where
  "sync_existing e concurrent taskId taskDetails d1 =
     (case getTaskById taskId d1 of
        None \<Rightarrow> (SyncFailed CreateFindFailed, d1)
      | Some verifyTask \<Rightarrow>
          (case syncTaskTypes e d1 of
             (Inl err, d2) \<Rightarrow> (SyncFailed (Thrown err), d2)
           | (Inr types, d2) \<Rightarrow>
               (case (if truthy (get_opt (get taskDetails (u ''custom_type'')) (u ''id''))
                      then updateTaskTypeRelationships taskId
                             (get (get taskDetails (u ''custom_type'')) (u ''id'')) d2
                      else (Inr None, d2)) of
                  (Inl err, d3) \<Rightarrow> (SyncFailed (Thrown err), d3)
                | (Inr linked, d3) \<Rightarrow>
                    (case log_custom_fields (get taskDetails (u ''custom_fields'')) of
                       Some err \<Rightarrow> (SyncFailed (Thrown err), d3)
                     | None \<Rightarrow>
                         (case build_field_data e taskDetails of
                            Inl err \<Rightarrow> (SyncFailed (Thrown err), d3)
                          | Inr fieldData \<Rightarrow>
                              (case updateTaskCustomFields taskId fieldData (ts_update e) (concurrent d3) of
                                 (updatedTask, d4) \<Rightarrow> (SyncOk updatedTask, d4)))))))"

text \<open>\<^verbatim>\<open>syncTaskCustomFields(taskId)\<close>: the result and the state of the storage after it.\<close>

definition syncTaskCustomFields :: "env \<Rightarrow> (db \<Rightarrow> db) \<Rightarrow> ustring \<Rightarrow> db \<Rightarrow> sync_result \<times> db" where
  "syncTaskCustomFields e concurrent taskId d =
     (case fst (getTaskDetails (detail_http e)) of
        Inl err \<Rightarrow> (SyncFailed (Thrown err), d)
      | Inr taskDetails \<Rightarrow>
          if \<not> truthy taskDetails then (SyncFailed NotFoundInClickUp, d)
          else if checkTaskExists taskId d then sync_existing e concurrent taskId taskDetails d
          else
            (case insert_placeholder e taskId taskDetails d of
               Inl err \<Rightarrow> (SyncFailed (Thrown err), d)
             | Inr d1 \<Rightarrow> sync_existing e concurrent taskId taskDetails d1))"

text \<open>
  \<^verbatim>\<open>syncTaskRelationships(taskId)\<close>, which the manual sync endpoint runs beside
  \<^verbatim>\<open>syncTaskCustomFields\<close>: the error it throws, if any, and the state of the storage
  after it. \<open>http\<close> are the answers to its own GET of the task, \<open>stamp\<close> is
  \<^verbatim>\<open>new Date().toISOString()\<close> and \<open>now\<close> is \<^verbatim>\<open>CURRENT_TIMESTAMP\<close> in its update.
\<close>

definition syncTaskRelationships ::
  "(nat \<Rightarrow> error + jsval) \<Rightarrow> string list \<Rightarrow> ustring \<Rightarrow> ustring \<Rightarrow> jsval \<Rightarrow> db \<Rightarrow> error option \<times> db" where
  "syncTaskRelationships http columns taskId stamp now d =
     (case fst (getTaskDetails http) of
        Inl err \<Rightarrow> (Some err, d)
      | Inr taskDetails \<Rightarrow>
          if \<not> truthy taskDetails then (None, d)
          else
            (case updateTaskRelationships columns taskId
                    (Obj [(u ''parent_id'', get taskDetails (u ''parent'')),
                          (u ''custom_type'', get_opt (get taskDetails (u ''custom_type'')) (u ''name'')),
                          (u ''updated_at'', Str stamp)])
                    now d of
               (Inl err, d') \<Rightarrow> (Some err, d')
             | (Inr updatedTask, d') \<Rightarrow> (None, d')))"

section \<open>A concrete run\<close>

text \<open>
  A task whose upstream detail has the name \<open>nm\<close> and carries the custom field \<^verbatim>\<open>Client\<close> followed by a
  pictograph, with a value, and a field that is in no table; a catalogue of one type; and
  a storage that holds the task as the importer wrote it.
\<close>

definition demo_fields :: "jsval list" where
  "demo_fields =
     [Obj [(u ''id'', Str (u ''f1'')), (u ''name'', Str (u ''Client '' @ [0x1F3AF])),
           (u ''type'', Str (u ''text'')), (u ''value'', Str (u ''Acme''))],
      Obj [(u ''id'', Str (u ''f2'')), (u ''name'', Str (u ''Random Notes'')),
           (u ''type'', Str (u ''text'')), (u ''value'', Str (u ''x''))]]"

definition demo_data :: "jsval \<Rightarrow> jsval" where
  "demo_data nm =
     Obj [(u ''id'', Str (u ''t1'')),
          (u ''name'', nm),
          (u ''status'', Obj [(u ''status'', Str (u ''open''))]),
          (u ''custom_fields'', Arr demo_fields),
          (u ''custom_type'', Obj [(u ''id'', Str (u ''ty1'')), (u ''name'', Str (u ''Job''))])]"

text \<open>
  The text the driver sends for the status object of that detail, its JSON text
  \<^verbatim>\<open>{"status":"open"}\<close> (\<open>0x22\<close> is the double quote).
\<close>

definition demo_bind :: "jsval \<Rightarrow> ustring" where
  "demo_bind v =
     (if v = Obj [(u ''status'', Str (u ''open''))]
      then u ''{'' @ [0x22] @ u ''status'' @ [0x22] @ u '':'' @ [0x22] @ u ''open'' @ [0x22] @ u ''}''
      else [])"

definition demo_env :: "jsval \<Rightarrow> env" where
  "demo_env nm =
     \<lparr>detail_http = (\<lambda>i. Inr (demo_data nm)),
      types_http = Inr (Obj [(u ''task_types'',
                      Arr [Obj [(u ''id'', Str (u ''ty1'')), (u ''name'', Str (u ''Job''))]])]),
      workspaceId = Str (u ''ws''),
      newDate = (\<lambda>v. DateObj v []),
      bind_text = demo_bind,
      iso_insert = u ''2024-05-01T10:00:00.000Z'',
      iso_field = (\<lambda>i. u ''2024-05-01T10:00:01.000Z''),
      ts_insert = DateObj (Str (u ''2024-05-01T10:00:00.000Z'')) [],
      ts_types = DateObj (Str (u ''2024-05-01T10:00:00.500Z'')) [],
      ts_update = DateObj (Str (u ''2024-05-01T10:00:01.000Z'')) []\<rparr>"

definition imported_row :: row where
  "imported_row =
     null_row
      (''id'' := Str (u ''t1''),
       ''_airbyte_raw_id'' := Str (u ''raw-1''),
       ''_airbyte_extracted_at'' := DateObj (Str (u ''2024-04-30T02:00:00.000Z'')) [],
       ''name'' := Str (u ''Old''),
       ''custom_fields'' := Obj [],
       ''relationships'' := Obj [],
       ''field_values'' := Obj [])"

definition demo_db :: db where
  "demo_db = \<lparr>clickup_task = [imported_row], task_types = [], field_changes = []\<rparr>"


text \<open>The detail \<^verbatim>\<open>getTaskDetails\<close> makes of that answer.\<close>

definition demo_details :: "jsval \<Rightarrow> jsval" where
  "demo_details nm =
     Obj [(u ''id'', Str (u ''t1'')),
          (u ''name'', nm),
          (u ''status'', Obj [(u ''status'', Str (u ''open''))]),
          (u ''custom_fields'', Arr demo_fields),
          (u ''custom_type'',
             Obj [(u ''id'', Str (u ''ty1'')), (u ''name'', Str (u ''Job'')), (u ''color'', Undefined)]),
          (u ''parent'', Null)]"

text \<open>The field data the loop builds from that detail, and the rows of the run.\<close>

definition demo_field_data :: "jsval \<Rightarrow> field_data" where
  "demo_field_data nm =
     \<lparr>customFields =
        [(u ''Client'',
            Obj [(u ''id'', Str (u ''f1'')), (u ''type'', Str (u ''text'')), (u ''config'', Obj []),
                 (u ''original_name'', Str (u ''Client '' @ [0x1F3AF]))]),
         (u ''Random Notes'',
            Obj [(u ''id'', Str (u ''f2'')), (u ''type'', Str (u ''text'')), (u ''config'', Obj []),
                 (u ''original_name'', Str (u ''Random Notes''))])],
      relationships = [(u ''parent_id'', Null), (u ''custom_type'', Str (u ''Job''))],
      fieldValues = [],
      fd_name = nm,
      fd_status = Str (u ''open''),
      fd_description = Undefined\<rparr>"

definition demo_type :: type_row where
  "demo_type =
     \<lparr>ty_id = Str (u ''ty1''), ty_name = Str (u ''Job''), ty_color = Null,
      ty_status = Str (u ''active''), ty_orderindex = Num 0, ty_workspace_id = Str (u ''ws''),
      ty_updated_at = DateObj (Str (u ''2024-05-01T10:00:00.500Z'')) []\<rparr>"

definition linked :: "row \<Rightarrow> row" where
  "linked r = r(''task_type_id'' := Str (u ''ty1''), ''task_type_name'' := Str (u ''Job''))"

definition synced :: "jsval \<Rightarrow> row \<Rightarrow> row" where
  "synced nm r = field_data_assignment (demo_field_data nm) (ts_update (demo_env nm)) (linked r)"

text \<open>
  Another session deleting the row of a task, as the \<^verbatim>\<open>DELETE FROM clickup_task\<close> of the
  retention sweep \<^verbatim>\<open>cleanOldData\<close> does for a row past the retention period.
\<close>

definition row_swept :: "ustring \<Rightarrow> db \<Rightarrow> db" where
  "row_swept taskId d = d\<lparr>clickup_task := filter (\<lambda>r. r ''id'' \<noteq> Str taskId) (clickup_task d)\<rparr>"

text \<open>
  A storage whose type table holds a type that the remote catalogue no longer has, and
  a remote catalogue that is empty.
\<close>

definition retired_type :: type_row where
  "retired_type =
     \<lparr>ty_id = Str (u ''ty0''), ty_name = Str (u ''Retired''), ty_color = Null,
      ty_status = Str (u ''active''), ty_orderindex = Num 0, ty_workspace_id = Str (u ''ws''),
      ty_updated_at = DateObj (Str (u ''2024-04-01T00:00:00.000Z'')) []\<rparr>"

definition stale_db :: db where
  "stale_db = \<lparr>clickup_task = [], task_types = [retired_type], field_changes = []\<rparr>"

definition empty_catalogue_env :: env where
  "empty_catalogue_env = (demo_env Null)\<lparr>types_http := Inr (Obj [(u ''task_types'', Arr [])])\<rparr>"







section \<open>Structural equality as the specification words it\<close>

text \<open>
  Deep equality that disregards the order of the keys of an object: two values are equal
  when their canonical forms are, the canonical form having the properties of every
  object sorted by key.
\<close>

fun canonical :: "jsval \<Rightarrow> jsval" where
  "canonical (Arr xs) = Arr (map canonical xs)"
| "canonical (Obj kvs) = Obj (sort_key fst (map (\<lambda>kv. (fst kv, canonical (snd kv))) kvs))"
| "canonical (DateObj j s) = DateObj (canonical j) s"
| "canonical v = v"

definition structurally_equal :: "jsval \<Rightarrow> jsval \<Rightarrow> bool" where
  "structurally_equal a b = (canonical a = canonical b)"

text \<open>
  A row whose \<^verbatim>\<open>creator\<close> document has the keys \<^verbatim>\<open>id\<close> and \<^verbatim>\<open>username\<close>, and the
  same document with the keys in the other order.
\<close>

definition creator_row :: row where
  "creator_row = imported_row(''creator'' := Obj [(u ''id'', Num 7), (u ''username'', Str (u ''ann''))])"

definition creator_db :: db where
  "creator_db = \<lparr>clickup_task = [creator_row], task_types = [], field_changes = []\<rparr>"

definition creator_reordered :: jsval where
  "creator_reordered = Obj [(u ''username'', Str (u ''ann'')), (u ''id'', Num 7)]"

section \<open>Retry policy of the detail fetch\<close>

lemma retry_from_3:
  "retry_from fn 3 d 0 =
     (case fn 0 of
        Inr v \<Rightarrow> (Inr (Some v), [])
      | Inl e0 \<Rightarrow>
          if transient e0 then
            (case fn 1 of
               Inr v \<Rightarrow> (Inr (Some v), [d])
             | Inl e1 \<Rightarrow>
                 if transient e1 then
                   (case fn 2 of
                      Inr v \<Rightarrow> (Inr (Some v), [d, d * 2])
                    | Inl e2 \<Rightarrow> (Inl e2, [d, d * 2]))
                 else (Inl e1, [d]))
          else (Inl e0, []))"
  by (simp add: retry_from.simps [of fn 3 d 0] retry_from.simps [of fn 3 d "Suc 0"]
      retry_from.simps [of fn 3 d "Suc (Suc 0)"] numeral_2_eq_2 split: sum.splits)

text \<open>
  C7. The detail fetch makes at most three attempts (its result depends on the first
  three outcomes only). An error that is neither a 502 nor a 429 is thrown at once, with
  no delay slept. After a 502 or 429 on attempt \<open>k\<close> (of the first two) the fetch sleeps
  \<open>2000 * k\<close> ms and tries again. Three failures in a row, the first two of them 502 or 429,
  end in the third error being thrown: the call fails, it does not return a value.
\<close>

theorem getTaskDetails_retry_policy:
  "(\<forall>e. http 0 = Inl e \<and> \<not> transient e \<longrightarrow> getTaskDetails http = (Inl e, []))
   \<and> (\<forall>e0 e1. http 0 = Inl e0 \<and> transient e0 \<and> http 1 = Inl e1 \<and> \<not> transient e1
          \<longrightarrow> getTaskDetails http = (Inl e1, [2000]))
   \<and> (\<forall>e0 e1 e2. http 0 = Inl e0 \<and> transient e0 \<and> http 1 = Inl e1 \<and> transient e1
          \<and> http 2 = Inl e2 \<longrightarrow> getTaskDetails http = (Inl e2, [2000, 4000]))
   \<and> (\<forall>d. http 0 = Inr d \<longrightarrow> getTaskDetails http = (task_detail d, []))
   \<and> (\<forall>e0 d. http 0 = Inl e0 \<and> transient e0 \<and> http 1 = Inr d
          \<longrightarrow> getTaskDetails http = (task_detail d, [2000]))
   \<and> (\<forall>e0 e1 d. http 0 = Inl e0 \<and> transient e0 \<and> http 1 = Inl e1 \<and> transient e1
          \<and> http 2 = Inr d \<longrightarrow> getTaskDetails http = (task_detail d, [2000, 4000]))
   \<and> (\<forall>http'. (\<forall>i<3. http' i = http i) \<longrightarrow> getTaskDetails http' = getTaskDetails http)"
proof -
  have same: "getTaskDetails http' = getTaskDetails http" if "\<forall>i<3. http' i = http i" for http'
  proof -
    from that have h: "http' 0 = http 0" "http' 1 = http 1" "http' 2 = http 2" by simp_all
    show ?thesis
      unfolding getTaskDetails_def retryRequest_def retry_from_3 h ..
  qed
  have rest: "getTaskDetails http =
     (case http 0 of
        Inr v \<Rightarrow> (task_detail v, [])
      | Inl e0 \<Rightarrow>
          if transient e0 then
            (case http 1 of
               Inr v \<Rightarrow> (task_detail v, [2000])
             | Inl e1 \<Rightarrow>
                 if transient e1 then
                   (case http 2 of
                      Inr v \<Rightarrow> (task_detail v, [2000, 4000])
                    | Inl e2 \<Rightarrow> (Inl e2, [2000, 4000]))
                 else (Inl e1, [2000]))
          else (Inl e0, []))"
    unfolding getTaskDetails_def retryRequest_def retry_from_3
    by (simp split: sum.splits)
  show ?thesis
    using same unfolding rest by simp
qed

theorem getTaskDetails_retry_policy_witness:
  "getTaskDetails (\<lambda>i. Inl (HttpError 502 Null)) = (Inl (HttpError 502 Null), [2000, 4000])
   \<and> getTaskDetails (\<lambda>i. Inl (HttpError 404 Null)) = (Inl (HttpError 404 Null), [])
   \<and> getTaskDetails (\<lambda>i. if i = 0 then Inl (HttpError 429 Null) else Inr (Obj []))
       = (task_detail (Obj []), [2000])"
  using getTaskDetails_retry_policy [of "\<lambda>i. Inl (HttpError 502 Null)"]
    getTaskDetails_retry_policy [of "\<lambda>i. Inl (HttpError 404 Null)"]
    getTaskDetails_retry_policy [of "\<lambda>i. if i = 0 then Inl (HttpError 429 Null) else Inr (Obj [])"]
  by simp

section \<open>The value map\<close>

lemma normalizeFieldValue_no_mapping: "normalizeFieldValue field None = Null"
  by (simp add: normalizeFieldValue_def)

lemma process_field_fieldValues:
  "process_field e i field fd = Inr fd' \<Longrightarrow> fieldValues fd' = fieldValues fd"
  by (auto simp: process_field_def normalizeFieldValue_no_mapping Let_def
      split: if_splits jsval.splits)

lemma process_fields_fieldValues:
  "process_fields e i fs fd = Inr fd' \<Longrightarrow> fieldValues fd' = fieldValues fd"
proof (induction fs arbitrary: i fd)
  case Nil
  then show ?case by simp
next
  case (Cons f fs)
  then show ?case
    by (auto split: sum.splits dest: process_field_fieldValues)
qed

lemma build_field_data_fieldValues:
  "build_field_data e taskDetails = Inr fd \<Longrightarrow> fieldValues fd = []"
  by (auto simp: build_field_data_def Let_def split: jsval.splits
      dest: process_fields_fieldValues)

lemma field_data_assignment_id [simp]:
  "field_data_assignment fd now r ''id'' = r ''id''"
  by (simp add: field_data_assignment_def)

lemma json_param_empty [simp]: "json_param (Obj []) = Obj []"
  by (simp add: json_param_def)

lemma updateTaskCustomFields_field_values:
  assumes "updateTaskCustomFields taskId fd now d = (res, d')" and "fieldValues fd = []"
    and "r \<in> set (clickup_task d')" and "r ''id'' = Str taskId"
  shows "r ''field_values'' = Obj []"
proof (cases "checkTaskExists taskId d")
  case False
  with assms(1) have "d' = d" by (simp add: updateTaskCustomFields_def)
  with assms(3,4) False show ?thesis by (auto simp: checkTaskExists_def)
next
  case True
  with assms(1) have "clickup_task d' =
      update_where_id taskId (field_data_assignment fd now) (clickup_task d)"
    by (auto simp: updateTaskCustomFields_def Let_def)
  with assms(3) obtain r0 where "r0 \<in> set (clickup_task d)"
    and r: "r = (if r0 ''id'' = Str taskId then field_data_assignment fd now r0 else r0)"
    by (auto simp: update_where_id_def)
  with assms(4) have "r = field_data_assignment fd now r0"
    by (auto split: if_splits)
  then show ?thesis
    using assms(2) by (simp add: field_data_assignment_def)
qed

lemma sync_existing_field_values:
  assumes "sync_existing e c taskId det d = (res, d')" and "success res"
    and "r \<in> set (clickup_task d')" and "r ''id'' = Str taskId"
  shows "r ''field_values'' = Obj []"
  using assms
  by (auto simp: sync_existing_def split: option.splits sum.splits prod.splits if_splits
      dest!: build_field_data_fieldValues
      intro: updateTaskCustomFields_field_values)

section \<open>The concrete run\<close>

lemma u_eq_iff [simp]: "u s = u t \<longleftrightarrow> s = t"
  by (simp add: u_def inj_map_eq_map [OF inj_of_char])

lemma u_Nil_iff [simp]: "u s = [] \<longleftrightarrow> s = []"
  by (simp add: u_def)

lemma demo_env_simps [simp]:
  "detail_http (demo_env nm) = (\<lambda>i. Inr (demo_data nm))"
  "types_http (demo_env nm) = Inr (Obj [(u ''task_types'',
                      Arr [Obj [(u ''id'', Str (u ''ty1'')), (u ''name'', Str (u ''Job''))]])])"
  "workspaceId (demo_env nm) = Str (u ''ws'')"
  "ts_types (demo_env nm) = DateObj (Str (u ''2024-05-01T10:00:00.500Z'')) []"
  by (simp_all add: demo_env_def)

lemma demo_clock:
  "ts_update (demo_env nm) = DateObj (Str (u ''2024-05-01T10:00:01.000Z'')) []"
  "ts_insert (demo_env nm) = DateObj (Str (u ''2024-05-01T10:00:00.000Z'')) []"
  "iso_insert (demo_env nm) = u ''2024-05-01T10:00:00.000Z''"
  "newDate (demo_env nm) = (\<lambda>v. DateObj v [])"
  by (simp_all add: demo_env_def)

lemma task_detail_demo: "task_detail (demo_data nm) = Inr (demo_details nm)"
  by (simp add: task_detail_def demo_data_def demo_details_def nullish_def or_else_def)

lemma demo_fetch: "fst (getTaskDetails (detail_http (demo_env nm))) = Inr (demo_details nm)"
  by (simp add: getTaskDetails_def retryRequest_def retry_from_3 task_detail_demo)

lemma clean_client: "clean_name (u ''Client '' @ [0x1F3AF]) = u ''Client''"
  by (simp add: clean_name_def trim_def decorative_def white_space_def u_def)

lemma clean_random: "clean_name (u ''Random Notes'') = u ''Random Notes''"
  by (simp add: clean_name_def trim_def decorative_def white_space_def u_def)

lemma demo_log: "log_custom_fields (get (demo_details nm) (u ''custom_fields'')) = None"
  by (simp add: log_custom_fields_def demo_details_def demo_fields_def nullish_def)

lemma demo_build: "build_field_data e (demo_details nm) = Inr (demo_field_data nm)"
  by (simp add: build_field_data_def demo_details_def demo_fields_def process_field_def
     normalizeFieldValue_def nullish_def or_else_def get_opt_def Let_def clean_client clean_random
     demo_field_data_def)

lemma demo_types:
  "task_types d = [] \<Longrightarrow> \<exists>tys. syncTaskTypes (demo_env nm) d = (Inr tys, d\<lparr>task_types := [demo_type]\<rparr>)"
  by (simp add: syncTaskTypes_def getCustomTaskTypes_def nullish_def or_else_def type_params_def param_def delete_types_not_in_def demo_type_def)

lemma sync_existing_ok:
  assumes "getTaskById taskId d1 = Some v"
    and "syncTaskTypes e d1 = (Inr tys, d2)"
    and "truthy (get_opt (get det (u ''custom_type'')) (u ''id''))"
    and "updateTaskTypeRelationships taskId (get (get det (u ''custom_type'')) (u ''id'')) d2 = (Inr l, d3)"
    and "log_custom_fields (get det (u ''custom_fields'')) = None"
    and "build_field_data e det = Inr fd"
  shows "sync_existing e c taskId det d1 =
           (SyncOk (fst (updateTaskCustomFields taskId fd (ts_update e) (c d3))),
            snd (updateTaskCustomFields taskId fd (ts_update e) (c d3)))"
  using assms by (simp add: sync_existing_def split: prod.splits)

lemma demo_link:
  "r ''id'' = Str (u ''t1'') \<Longrightarrow> updateTaskTypeRelationships (u ''t1'') (Str (u ''ty1'')) \<lparr>clickup_task = [r], task_types = [demo_type], field_changes = fc\<rparr>
   = (Inr (find (\<lambda>r. r ''id'' = Str (u ''t1'')) (update_where_id (u ''t1'') linked [r])), \<lparr>clickup_task = update_where_id (u ''t1'') linked [r], task_types = [demo_type], field_changes = fc\<rparr>)"
  by (simp add: updateTaskTypeRelationships_def param_def demo_type_def linked_def update_where_id_def Let_def checkTaskExists_def)

lemma demo_sync_existing:
  assumes "r ''id'' = Str (u ''t1'')"
  shows "sync_existing (demo_env nm) (\<lambda>d. d) (u ''t1'') (demo_details nm)
          \<lparr>clickup_task = [r], task_types = [], field_changes = []\<rparr>
        = (SyncOk (Some (synced nm r)),
           \<lparr>clickup_task = [synced nm r], task_types = [demo_type], field_changes = []\<rparr>)"
proof -
  let ?d1 = "\<lparr>clickup_task = [r], task_types = [], field_changes = []\<rparr>"
  have 1: "getTaskById (u ''t1'') ?d1 = Some r"
    using assms by (simp add: getTaskById_def)
  obtain tys where 2: "syncTaskTypes (demo_env nm) ?d1 =
      (Inr tys, \<lparr>clickup_task = [r], task_types = [demo_type], field_changes = []\<rparr>)"
    using demo_types [of ?d1] by auto
  have 3: "truthy (get_opt (get (demo_details nm) (u ''custom_type'')) (u ''id''))"
    by (simp add: demo_details_def get_opt_def nullish_def)
  have 4: "get (get (demo_details nm) (u ''custom_type'')) (u ''id'') = Str (u ''ty1'')"
    by (simp add: demo_details_def)
  have 5: "updateTaskCustomFields (u ''t1'') (demo_field_data nm) (ts_update (demo_env nm))
             \<lparr>clickup_task = [linked r], task_types = [demo_type], field_changes = []\<rparr>
           = (Some (synced nm r), \<lparr>clickup_task = [synced nm r], task_types = [demo_type], field_changes = []\<rparr>)"
    using assms
    by (simp add: updateTaskCustomFields_def checkTaskExists_def update_where_id_def linked_def
        synced_def)
  have 6: "updateTaskTypeRelationships (u ''t1'') (get (get (demo_details nm) (u ''custom_type'')) (u ''id''))
             \<lparr>clickup_task = [r], task_types = [demo_type], field_changes = []\<rparr>
           = (Inr (Some (linked r)),
              \<lparr>clickup_task = [linked r], task_types = [demo_type], field_changes = []\<rparr>)"
    using assms demo_link [of r "[]"] by (simp add: 4 update_where_id_def linked_def)
  show ?thesis
    by (simp add: sync_existing_ok [OF 1 2 3 6 demo_log demo_build] 5)
qed

lemma getTaskDetails_truthy: "fst (getTaskDetails http) = Inr det \<Longrightarrow> truthy det"
  by (auto simp: getTaskDetails_def task_detail_def split: prod.splits sum.splits option.splits if_splits)

lemma sync_when_exists:
  assumes "fst (getTaskDetails (detail_http e)) = Inr det" and "checkTaskExists taskId d"
  shows "syncTaskCustomFields e c taskId d = sync_existing e c taskId det d"
  using assms getTaskDetails_truthy [OF assms(1)] by (simp add: syncTaskCustomFields_def)

lemma sync_when_absent:
  assumes "fst (getTaskDetails (detail_http e)) = Inr det" and "\<not> checkTaskExists taskId d"
    and "\<not> invalid_dates e det"
  shows "syncTaskCustomFields e c taskId d =
           sync_existing e c taskId det
             (d\<lparr>clickup_task := clickup_task d @ [placeholder_row e taskId det]\<rparr>)"
  using assms getTaskDetails_truthy [OF assms(1)]
  by (simp add: syncTaskCustomFields_def insert_placeholder_def)

lemma sync_when_rejected:
  assumes "fst (getTaskDetails (detail_http e)) = Inr det" and "\<not> checkTaskExists taskId d"
    and "invalid_dates e det"
  shows "syncTaskCustomFields e c taskId d = (SyncFailed (Thrown (SqlError InvalidDatetime)), d)"
  using assms getTaskDetails_truthy [OF assms(1)]
  by (simp add: syncTaskCustomFields_def insert_placeholder_def)


lemma demo_sync_imported:
  "syncTaskCustomFields (demo_env nm) (\<lambda>d. d) (u ''t1'') demo_db =
     (SyncOk (Some (synced nm imported_row)),
      \<lparr>clickup_task = [synced nm imported_row], task_types = [demo_type], field_changes = []\<rparr>)"
proof -
  have id: "imported_row ''id'' = Str (u ''t1'')"
    by (simp add: imported_row_def)
  have ex: "checkTaskExists (u ''t1'') demo_db"
    by (simp add: checkTaskExists_def demo_db_def id)
  show ?thesis
    unfolding sync_when_exists [OF demo_fetch ex]
    using id demo_sync_existing [of imported_row] by (simp add: demo_db_def)
qed


text \<open>
  C10. Whatever the task, its custom fields and their values, the field data built by
  the loop has an empty value map, and after every successful run of
  \<^verbatim>\<open>syncTaskCustomFields\<close> the column \<^verbatim>\<open>field_values\<close> of the task's row is the
  empty document: the value is normalised without a mapping, which gives
  \<^verbatim>\<open>null\<close> for every field, so nothing is ever staged.
\<close>

theorem field_values_always_empty:
  "(\<forall>fd. build_field_data e taskDetails = Inr fd \<longrightarrow> fieldValues fd = [])
   \<and> (\<forall>res d'. syncTaskCustomFields e concurrent taskId d = (res, d') \<and> success res
         \<longrightarrow> (\<forall>r \<in> set (clickup_task d'). r ''id'' = Str taskId \<longrightarrow> r ''field_values'' = Obj []))"
proof (intro conjI allI impI ballI)
  fix fd assume "build_field_data e taskDetails = Inr fd"
  then show "fieldValues fd = []" by (rule build_field_data_fieldValues)
next
  fix res d' r
  assume a: "syncTaskCustomFields e concurrent taskId d = (res, d') \<and> success res"
    and r: "r \<in> set (clickup_task d')" "r ''id'' = Str taskId"
  from a obtain det d1 where "sync_existing e concurrent taskId det d1 = (res, d')"
    by (auto simp: syncTaskCustomFields_def split: sum.splits if_splits)
  with a r show "r ''field_values'' = Obj []"
    by (auto intro: sync_existing_field_values)
qed

theorem field_values_always_empty_witness:
  "build_field_data (demo_env (Str (u ''New''))) (demo_details (Str (u ''New''))) = Inr (demo_field_data (Str (u ''New'')))
   \<and> fieldValues (demo_field_data (Str (u ''New''))) = []
   \<and> success (fst (syncTaskCustomFields (demo_env (Str (u ''New''))) (\<lambda>d. d) (u ''t1'') demo_db))
   \<and> synced (Str (u ''New'')) imported_row \<in> set (clickup_task (snd (syncTaskCustomFields (demo_env (Str (u ''New''))) (\<lambda>d. d) (u ''t1'') demo_db)))
   \<and> synced (Str (u ''New'')) imported_row ''id'' = Str (u ''t1'')
   \<and> synced (Str (u ''New'')) imported_row ''field_values'' = Obj []"
proof -
  have id: "synced (Str (u ''New'')) imported_row ''id'' = Str (u ''t1'')"
    by (simp add: synced_def linked_def imported_row_def)
  show ?thesis
    using field_values_always_empty [of "demo_env (Str (u ''New''))" "demo_details (Str (u ''New''))"
        "\<lambda>d. d" "u ''t1''" demo_db]
      demo_build [of "demo_env (Str (u ''New''))" "Str (u ''New'')"]
      demo_sync_imported [of "Str (u ''New'')"] id
    by simp
qed

text \<open>
  C1, on the concrete run. The field named \<^verbatim>\<open>Client\<close> plus a pictograph has the clean
  name \<^verbatim>\<open>Client\<close>, which the table maps to the column \<^verbatim>\<open>client\<close>, and its value is
  the string \<^verbatim>\<open>Acme\<close>. The run succeeds, the field is recorded in the definition map,
  and the value map it stores is empty: no entry under \<^verbatim>\<open>client\<close>, nor under any key.
\<close>

theorem client_value_not_staged:
  "clean_name (u ''Client '' @ [0x1F3AF]) = u ''Client''
   \<and> map_option fm_name (mapFieldName (newDate (demo_env (Str (u ''New'')))) (u ''Client'')) = Some (u ''client'')
   \<and> get (demo_fields ! 0) (u ''value'') = Str (u ''Acme'')
   \<and> syncTaskCustomFields (demo_env (Str (u ''New''))) (\<lambda>d. d) (u ''t1'') demo_db =
        (SyncOk (Some (synced (Str (u ''New'')) imported_row)),
         \<lparr>clickup_task = [synced (Str (u ''New'')) imported_row], task_types = [demo_type], field_changes = []\<rparr>)
   \<and> get (synced (Str (u ''New'')) imported_row ''custom_fields'') (u ''Client'') \<noteq> Undefined
   \<and> synced (Str (u ''New'')) imported_row ''field_values'' = Obj []
   \<and> get (synced (Str (u ''New'')) imported_row ''field_values'') (u ''client'') = Undefined"
  by (simp add: clean_client demo_sync_imported mapFieldName_def fieldMap_def demo_fields_def
      synced_def field_data_assignment_def demo_field_data_def json_param_def)

section \<open>A row that vanishes before the update\<close>

lemma updateTaskCustomFields_no_row:
  "\<not> checkTaskExists taskId d \<Longrightarrow> updateTaskCustomFields taskId fd now d = (None, d)"
  by (simp add: updateTaskCustomFields_def)

lemma demo_sync_existing_swept:
  assumes "r ''id'' = Str (u ''t1'')"
  shows "sync_existing (demo_env nm) (row_swept (u ''t1'')) (u ''t1'') (demo_details nm)
          \<lparr>clickup_task = [r], task_types = [], field_changes = []\<rparr>
        = (SyncOk None, \<lparr>clickup_task = [], task_types = [demo_type], field_changes = []\<rparr>)"
proof -
  let ?d1 = "\<lparr>clickup_task = [r], task_types = [], field_changes = []\<rparr>"
  have 1: "getTaskById (u ''t1'') ?d1 = Some r"
    using assms by (simp add: getTaskById_def)
  obtain tys where 2: "syncTaskTypes (demo_env nm) ?d1 =
      (Inr tys, \<lparr>clickup_task = [r], task_types = [demo_type], field_changes = []\<rparr>)"
    using demo_types [of ?d1] by auto
  have 3: "truthy (get_opt (get (demo_details nm) (u ''custom_type'')) (u ''id''))"
    by (simp add: demo_details_def get_opt_def nullish_def)
  have 4: "get (get (demo_details nm) (u ''custom_type'')) (u ''id'') = Str (u ''ty1'')"
    by (simp add: demo_details_def)
  have 6: "updateTaskTypeRelationships (u ''t1'') (get (get (demo_details nm) (u ''custom_type'')) (u ''id''))
             \<lparr>clickup_task = [r], task_types = [demo_type], field_changes = []\<rparr>
           = (Inr (Some (linked r)),
              \<lparr>clickup_task = [linked r], task_types = [demo_type], field_changes = []\<rparr>)"
    using assms demo_link [of r "[]"] by (simp add: 4 update_where_id_def linked_def)
  have 7: "row_swept (u ''t1'') \<lparr>clickup_task = [linked r], task_types = [demo_type], field_changes = []\<rparr>
       = \<lparr>clickup_task = [], task_types = [demo_type], field_changes = []\<rparr>"
    using assms by (simp add: row_swept_def linked_def)
  have 8: "\<not> checkTaskExists (u ''t1'') \<lparr>clickup_task = [], task_types = [demo_type], field_changes = []\<rparr>"
    by (simp add: checkTaskExists_def)
  show ?thesis
    by (simp add: sync_existing_ok [OF 1 2 3 6 demo_log demo_build] 7
        updateTaskCustomFields_no_row [OF 8])
qed

text \<open>
  C3, on the concrete run with the row deleted by another session between the
  verification read and the update. The update then matches no row,
  \<^verbatim>\<open>updateTaskCustomFields\<close> rolls back and returns \<^verbatim>\<open>null\<close>, and
  \<^verbatim>\<open>syncTaskCustomFields\<close> returns \<^verbatim>\<open>{ success: true, task: null }\<close>.
\<close>

theorem vanished_row_reported_as_success:
  "syncTaskCustomFields (demo_env (Str (u ''New''))) (row_swept (u ''t1'')) (u ''t1'') demo_db =
     (SyncOk None, \<lparr>clickup_task = [], task_types = [demo_type], field_changes = []\<rparr>)
   \<and> success (fst (syncTaskCustomFields (demo_env (Str (u ''New''))) (row_swept (u ''t1'')) (u ''t1'') demo_db))"
proof -
  have id: "imported_row ''id'' = Str (u ''t1'')"
    by (simp add: imported_row_def)
  have ex: "checkTaskExists (u ''t1'') demo_db"
    by (simp add: checkTaskExists_def demo_db_def id)
  show ?thesis
    unfolding sync_when_exists [OF demo_fetch ex]
    using id demo_sync_existing_swept [of imported_row] by (simp add: demo_db_def)
qed

section \<open>What each step does to the task table\<close>

lemma update_where_id_absent:
  "\<not> checkTaskExists taskId d \<Longrightarrow> update_where_id taskId f (clickup_task d) = clickup_task d"
  by (auto simp: update_where_id_def checkTaskExists_def intro: map_idI)

lemma update_where_id_twice:
  assumes "\<And>r. f r ''id'' = r ''id''"
  shows "update_where_id taskId g (update_where_id taskId f rows)
         = update_where_id taskId (\<lambda>r. g (f r)) rows"
  using assms by (simp add: update_where_id_def)

lemma update_where_id_ident: "update_where_id taskId (\<lambda>r. r) rows = rows"
  by (simp add: update_where_id_def)

lemma syncTaskTypes_tasks:
  "syncTaskTypes e d = (res, d') \<Longrightarrow> clickup_task d' = clickup_task d"
  by (auto simp: syncTaskTypes_def Let_def split: sum.splits jsval.splits if_splits)

lemma syncTaskTypes_failed:
  "syncTaskTypes e d = (Inl err, d') \<Longrightarrow> d' = d"
  by (auto simp: syncTaskTypes_def Let_def split: sum.splits jsval.splits if_splits)

lemma updateTaskTypeRelationships_tasks:
  assumes "updateTaskTypeRelationships taskId typeId d = (res, d')"
  shows "\<exists>nm. clickup_task d' = clickup_task d \<or> clickup_task d' = update_where_id taskId
            (\<lambda>r. r(''task_type_id'' := param typeId, ''task_type_name'' := nm)) (clickup_task d)"
  using assms by (auto simp: updateTaskTypeRelationships_def Let_def split: if_splits)

lemma updateTaskCustomFields_tasks:
  assumes "updateTaskCustomFields taskId fd now d = (res, d')"
  shows "clickup_task d' = update_where_id taskId (field_data_assignment fd now) (clickup_task d)"
  using assms
  by (auto simp: updateTaskCustomFields_def Let_def update_where_id_absent split: if_splits)

lemma sync_existing_table:
  assumes "sync_existing e (\<lambda>d. d) taskId det d1 = (res, d')"
  shows "\<exists>f. (\<forall>r c. c \<noteq> ''task_type_id'' \<and> c \<noteq> ''task_type_name'' \<longrightarrow> f r c = r c)
           \<and> (if success res
               then \<exists>fd. build_field_data e det = Inr fd
                      \<and> clickup_task d' = update_where_id taskId
                           (\<lambda>r. field_data_assignment fd (ts_update e) (f r)) (clickup_task d1)
               else clickup_task d' = update_where_id taskId f (clickup_task d1))"
proof (cases "getTaskById taskId d1")
  case None
  with assms have "\<not> success res" "d' = d1" by (auto simp: sync_existing_def)
  then show ?thesis
    by (intro exI [of _ "\<lambda>r. r"]) (simp add: update_where_id_ident)
next
  case (Some v)
  obtain r2 d2 where t: "syncTaskTypes e d1 = (r2, d2)" by (cases "syncTaskTypes e d1")
  have d2: "clickup_task d2 = clickup_task d1" using t by (rule syncTaskTypes_tasks)
  show ?thesis
  proof (cases r2)
    case (Inl err)
    with assms Some t have "\<not> success res" "d' = d2" by (auto simp: sync_existing_def)
    with d2 show ?thesis
      by (intro exI [of _ "\<lambda>r. r"]) (simp add: update_where_id_ident)
  next
    case (Inr tys)
    let ?typeId = "get (get det (u ''custom_type'')) (u ''id'')"
    let ?link = "if truthy (get_opt (get det (u ''custom_type'')) (u ''id''))
                 then updateTaskTypeRelationships taskId ?typeId d2 else (Inr None, d2)"
    obtain r3 d3 where l: "?link = (r3, d3)" by (cases ?link)
    have "\<exists>nm. clickup_task d3 = clickup_task d2 \<or> clickup_task d3 = update_where_id taskId
            (\<lambda>r. r(''task_type_id'' := param ?typeId, ''task_type_name'' := nm)) (clickup_task d2)"
      using l updateTaskTypeRelationships_tasks [of taskId ?typeId d2 r3 d3]
      by (auto split: if_splits)
    then obtain f where f: "\<forall>r c. c \<noteq> ''task_type_id'' \<and> c \<noteq> ''task_type_name'' \<longrightarrow> f r c = r c"
      and d3: "clickup_task d3 = update_where_id taskId f (clickup_task d1)"
      unfolding d2
    proof (elim exE disjE)
      fix nm assume "clickup_task d3 = clickup_task d1"
      then show ?thesis
        using that [of "\<lambda>r. r"] by (simp add: update_where_id_ident)
    next
      fix nm assume "clickup_task d3 = update_where_id taskId
            (\<lambda>r. r(''task_type_id'' := param ?typeId, ''task_type_name'' := nm)) (clickup_task d1)"
      then show ?thesis
        using that [of "\<lambda>r. r(''task_type_id'' := param ?typeId, ''task_type_name'' := nm)"] by simp
    qed
    have fid: "\<And>r. f r ''id'' = r ''id''" using f by simp
    show ?thesis
    proof (cases "(\<exists>lk. r3 = Inr lk) \<and> log_custom_fields (get det (u ''custom_fields'')) = None
                     \<and> (\<exists>fd. build_field_data e det = Inr fd)")
      case True
      then obtain lk fd where r3: "r3 = Inr lk"
        and lg: "log_custom_fields (get det (u ''custom_fields'')) = None"
        and fd: "build_field_data e det = Inr fd" by auto
      obtain ut d4 where up: "updateTaskCustomFields taskId fd (ts_update e) d3 = (ut, d4)"
        by (cases "updateTaskCustomFields taskId fd (ts_update e) d3")
      from assms Some t Inr l r3 lg fd up have res: "res = SyncOk ut" "d' = d4"
        by (auto simp: sync_existing_def)
      have "clickup_task d4 = update_where_id taskId
              (\<lambda>r. field_data_assignment fd (ts_update e) (f r)) (clickup_task d1)"
        using updateTaskCustomFields_tasks [OF up] d3 update_where_id_twice [of f, OF fid]
        by simp
      with res fd f show ?thesis by (intro exI [of _ f]) simp
    next
      case False
      with assms Some t Inr l have "\<not> success res" "d' = d3"
        by (auto simp: sync_existing_def split: sum.splits option.splits prod.splits)
      with d3 f show ?thesis by (intro exI [of _ f]) simp
    qed
  qed
qed

section \<open>Coalesced columns\<close>

lemma coalesce_param: "coalesce (param v) old = (if nullish v then old else v)"
  by (auto simp: coalesce_def param_def nullish_def)

lemma process_field_rest:
  "process_field e i field fd = Inr fd' \<Longrightarrow>
     fd_name fd' = fd_name fd \<and> fd_status fd' = fd_status fd
     \<and> fd_description fd' = fd_description fd \<and> relationships fd' = relationships fd"
  by (auto simp: process_field_def normalizeFieldValue_no_mapping Let_def
      split: if_splits jsval.splits)

lemma process_fields_rest:
  "process_fields e i fs fd = Inr fd' \<Longrightarrow>
     fd_name fd' = fd_name fd \<and> fd_status fd' = fd_status fd
     \<and> fd_description fd' = fd_description fd \<and> relationships fd' = relationships fd"
proof (induction fs arbitrary: i fd)
  case Nil
  then show ?case by simp
next
  case (Cons f fs)
  then show ?case
    by (auto split: sum.splits dest!: process_field_rest)
qed

lemma build_field_data_rest:
  assumes "build_field_data e det = Inr fd"
  shows "fd_name fd = get det (u ''name'')"
    and "fd_status fd = or_else (get_opt (get det (u ''status'')) (u ''status'')) (get det (u ''status''))"
    and "fd_description fd = get det (u ''description'')"
    and "relationships fd = [(u ''parent_id'', get det (u ''parent'')),
           (u ''custom_type'', or_else (get_opt (get det (u ''custom_type'')) (u ''name'')) Null)]"
  using assms
  by (auto simp: build_field_data_def Let_def split: jsval.splits dest!: process_fields_rest)

lemma map_update_where_id:
  "map (\<lambda>r. r c) (update_where_id taskId f rows)
     = map (\<lambda>r. if r ''id'' = Str taskId then f r c else r c) rows"
  by (simp add: update_where_id_def)

text \<open>
  C5. The field-data update overwrites \<^verbatim>\<open>name\<close>, \<^verbatim>\<open>status\<close> and
  \<^verbatim>\<open>description\<close> of the task's row exactly when the new value is neither
  \<^verbatim>\<open>null\<close> nor \<^verbatim>\<open>undefined\<close>, and leaves the stored value otherwise; the rows of
  other tasks keep theirs. For a whole successful run on an existing row the new values
  are the upstream name and description, and the upstream \<^verbatim>\<open>status.status\<close> when that
  is truthy, else the upstream status.
\<close>

theorem descriptive_columns_coalesced:
  "(\<forall>res d'. updateTaskCustomFields taskId fd now d = (res, d') \<longrightarrow>
      map (\<lambda>r. r ''name'') (clickup_task d')
        = map (\<lambda>r. if r ''id'' = Str taskId \<and> \<not> nullish (fd_name fd) then fd_name fd else r ''name'')
            (clickup_task d)
      \<and> map (\<lambda>r. r ''status'') (clickup_task d')
        = map (\<lambda>r. if r ''id'' = Str taskId \<and> \<not> nullish (fd_status fd) then fd_status fd else r ''status'')
            (clickup_task d)
      \<and> map (\<lambda>r. r ''description'') (clickup_task d')
        = map (\<lambda>r. if r ''id'' = Str taskId \<and> \<not> nullish (fd_description fd) then fd_description fd
                    else r ''description'')
            (clickup_task d))
   \<and> (\<forall>det res d'. fst (getTaskDetails (detail_http e)) = Inr det \<and> checkTaskExists taskId d
         \<and> syncTaskCustomFields e (\<lambda>d. d) taskId d = (res, d') \<and> success res \<longrightarrow>
      map (\<lambda>r. r ''name'') (clickup_task d')
        = map (\<lambda>r. if r ''id'' = Str taskId \<and> \<not> nullish (get det (u ''name''))
                    then get det (u ''name'') else r ''name'')
            (clickup_task d)
      \<and> map (\<lambda>r. r ''description'') (clickup_task d')
        = map (\<lambda>r. if r ''id'' = Str taskId \<and> \<not> nullish (get det (u ''description''))
                    then get det (u ''description'') else r ''description'')
            (clickup_task d)
      \<and> map (\<lambda>r. r ''status'') (clickup_task d')
        = map (\<lambda>r. if r ''id'' = Str taskId
                       \<and> \<not> nullish (or_else (get_opt (get det (u ''status'')) (u ''status''))
                                      (get det (u ''status'')))
                    then or_else (get_opt (get det (u ''status'')) (u ''status'')) (get det (u ''status''))
                    else r ''status'')
            (clickup_task d))"
proof (intro conjI allI impI)
  fix res d'
  assume "updateTaskCustomFields taskId fd now d = (res, d')"
  then have t: "clickup_task d' = update_where_id taskId (field_data_assignment fd now) (clickup_task d)"
    by (rule updateTaskCustomFields_tasks)
  show "map (\<lambda>r. r ''name'') (clickup_task d')
        = map (\<lambda>r. if r ''id'' = Str taskId \<and> \<not> nullish (fd_name fd) then fd_name fd else r ''name'')
            (clickup_task d)"
    unfolding t map_update_where_id
    by (rule map_cong) (auto simp: field_data_assignment_def coalesce_param)
  show "map (\<lambda>r. r ''status'') (clickup_task d')
        = map (\<lambda>r. if r ''id'' = Str taskId \<and> \<not> nullish (fd_status fd) then fd_status fd else r ''status'')
            (clickup_task d)"
    unfolding t map_update_where_id
    by (rule map_cong) (auto simp: field_data_assignment_def coalesce_param)
  show "map (\<lambda>r. r ''description'') (clickup_task d')
        = map (\<lambda>r. if r ''id'' = Str taskId \<and> \<not> nullish (fd_description fd) then fd_description fd
                    else r ''description'')
            (clickup_task d)"
    unfolding t map_update_where_id
    by (rule map_cong) (auto simp: field_data_assignment_def coalesce_param)
next
  fix det res d'
  assume a: "fst (getTaskDetails (detail_http e)) = Inr det \<and> checkTaskExists taskId d
         \<and> syncTaskCustomFields e (\<lambda>d. d) taskId d = (res, d') \<and> success res"
  then have "sync_existing e (\<lambda>d. d) taskId det d = (res, d')"
    using sync_when_exists [of e det taskId d "\<lambda>d. d"] by simp
  from sync_existing_table [OF this] a obtain f fd
    where f: "\<forall>r c. c \<noteq> ''task_type_id'' \<and> c \<noteq> ''task_type_name'' \<longrightarrow> f r c = r c"
      and fd: "build_field_data e det = Inr fd"
      and t: "clickup_task d' = update_where_id taskId
                (\<lambda>r. field_data_assignment fd (ts_update e) (f r)) (clickup_task d)"
    by auto
  note cols = build_field_data_rest [OF fd]
  show "map (\<lambda>r. r ''name'') (clickup_task d')
        = map (\<lambda>r. if r ''id'' = Str taskId \<and> \<not> nullish (get det (u ''name''))
                    then get det (u ''name'') else r ''name'')
            (clickup_task d)"
    unfolding t map_update_where_id
    by (rule map_cong) (auto simp: field_data_assignment_def coalesce_param cols f)
  show "map (\<lambda>r. r ''description'') (clickup_task d')
        = map (\<lambda>r. if r ''id'' = Str taskId \<and> \<not> nullish (get det (u ''description''))
                    then get det (u ''description'') else r ''description'')
            (clickup_task d)"
    unfolding t map_update_where_id
    by (rule map_cong) (auto simp: field_data_assignment_def coalesce_param cols f)
  show "map (\<lambda>r. r ''status'') (clickup_task d')
        = map (\<lambda>r. if r ''id'' = Str taskId
                       \<and> \<not> nullish (or_else (get_opt (get det (u ''status'')) (u ''status''))
                                      (get det (u ''status'')))
                    then or_else (get_opt (get det (u ''status'')) (u ''status'')) (get det (u ''status''))
                    else r ''status'')
            (clickup_task d)"
    unfolding t map_update_where_id
    by (rule map_cong) (auto simp: field_data_assignment_def coalesce_param cols f)
qed

lemma demo_exists: "checkTaskExists (u ''t1'') demo_db"
  by (simp add: checkTaskExists_def demo_db_def imported_row_def)

lemma demo_name: "get (demo_details nm) (u ''name'') = nm"
  by (simp add: demo_details_def)

theorem descriptive_columns_coalesced_witness:
  "map (\<lambda>r. r ''name'') (clickup_task demo_db) = [Str (u ''Old'')]
   \<and> success (fst (syncTaskCustomFields (demo_env Null) (\<lambda>d. d) (u ''t1'') demo_db))
   \<and> map (\<lambda>r. r ''name'') (clickup_task (snd (syncTaskCustomFields (demo_env Null) (\<lambda>d. d) (u ''t1'') demo_db)))
       = [Str (u ''Old'')]
   \<and> success (fst (syncTaskCustomFields (demo_env (Str (u ''New''))) (\<lambda>d. d) (u ''t1'') demo_db))
   \<and> map (\<lambda>r. r ''name'')
        (clickup_task (snd (syncTaskCustomFields (demo_env (Str (u ''New''))) (\<lambda>d. d) (u ''t1'') demo_db)))
       = [Str (u ''New'')]"
proof -
  have old: "map (\<lambda>r. r ''name'') (clickup_task demo_db) = [Str (u ''Old'')]"
    "map (\<lambda>r. r ''id'') (clickup_task demo_db) = [Str (u ''t1'')]"
    by (simp_all add: demo_db_def imported_row_def)
  have rows: "clickup_task demo_db = [imported_row]" by (simp add: demo_db_def)
  show ?thesis
    using descriptive_columns_coalesced [of "u ''t1''" "demo_field_data Null" Null demo_db
        "demo_env Null", THEN conjunct2, rule_format,
        of "demo_details Null" "fst (syncTaskCustomFields (demo_env Null) (\<lambda>d. d) (u ''t1'') demo_db)"
           "snd (syncTaskCustomFields (demo_env Null) (\<lambda>d. d) (u ''t1'') demo_db)"]
      descriptive_columns_coalesced [of "u ''t1''" "demo_field_data Null" Null demo_db
        "demo_env (Str (u ''New''))", THEN conjunct2, rule_format,
        of "demo_details (Str (u ''New''))"
           "fst (syncTaskCustomFields (demo_env (Str (u ''New''))) (\<lambda>d. d) (u ''t1'') demo_db)"
           "snd (syncTaskCustomFields (demo_env (Str (u ''New''))) (\<lambda>d. d) (u ''t1'') demo_db)"]
      demo_fetch demo_exists demo_name
    by (simp add: demo_sync_imported nullish_def rows imported_row_def)
qed

section \<open>Provenance columns\<close>

lemma update_where_id_filter:
  assumes "\<And>r. f r ''id'' = r ''id''"
  shows "filter (\<lambda>r. r ''id'' \<noteq> Str taskId) (update_where_id taskId f rows)
         = filter (\<lambda>r. r ''id'' \<noteq> Str taskId) rows"
  using assms by (induction rows) (auto simp: update_where_id_def)



lemma sync_cases:
  assumes "syncTaskCustomFields e c taskId d = (res, d')"
  obtains (untouched) "\<not> success res" "d' = d"
  | (run) det where "fst (getTaskDetails (detail_http e)) = Inr det"
      "sync_existing e c taskId det
         (d\<lparr>clickup_task := clickup_task d @
              (if checkTaskExists taskId d then [] else [placeholder_row e taskId det])\<rparr>) = (res, d')"
proof (cases "fst (getTaskDetails (detail_http e))")
  case (Inl err)
  with assms have "\<not> success res" "d' = d" by (auto simp: syncTaskCustomFields_def)
  then show ?thesis by (rule untouched)
next
  case (Inr det)
  show ?thesis
  proof (cases "checkTaskExists taskId d")
    case True
    with assms sync_when_exists [OF Inr True, of c] Inr show ?thesis
      by (intro run [of det]) simp_all
  next
    case False
    show ?thesis
    proof (cases "invalid_dates e det")
      case True
      with assms sync_when_rejected [OF Inr False True, of c]
      have "\<not> success res" "d' = d" by auto
      then show ?thesis by (rule untouched)
    next
      case valid: False
      with assms sync_when_absent [OF Inr False valid, of c] Inr False show ?thesis
        by (intro run [of det]) simp_all
    qed
  qed
qed

lemma updateTaskRelationships_tasks:
  assumes "updateTaskRelationships columns taskId rel stamp d = (res, d')"
  shows "\<exists>p t. clickup_task d' = clickup_task d \<or> clickup_task d' = update_where_id taskId
            (\<lambda>r. r(''parent_id'' := p, ''task_type_id'' := t, ''updated_at'' := stamp)) (clickup_task d)"
proof (cases "checkTaskExists taskId d \<and> \<not> nullish rel \<and> ''parent_id'' \<in> set columns")
  case False
  with assms have "clickup_task d' = clickup_task d"
    by (auto simp: updateTaskRelationships_def split: if_splits)
  then show ?thesis by simp
next
  case True
  let ?p = "if truthy (get rel (u ''parent_id''))
               \<and> \<not> (\<exists>r \<in> set (clickup_task d). r ''id'' = get rel (u ''parent_id''))
            then Null else param (get rel (u ''parent_id''))"
  let ?t = "if param (get rel (u ''custom_type'')) = Null then Null
            else (case find (\<lambda>t. ty_name t = param (get rel (u ''custom_type''))) (task_types d) of
                    None \<Rightarrow> Null | Some t \<Rightarrow> ty_id t)"
  from True assms have "clickup_task d' = update_where_id taskId
            (\<lambda>r. r(''parent_id'' := ?p, ''task_type_id'' := ?t, ''updated_at'' := stamp)) (clickup_task d)"
    by (auto simp: updateTaskRelationships_def Let_def)
  then show ?thesis by blast
qed

lemma syncTaskRelationships_tasks:
  assumes "syncTaskRelationships http columns taskId tm stamp d = (res, d')"
  shows "\<exists>p t. clickup_task d' = clickup_task d \<or> clickup_task d' = update_where_id taskId
            (\<lambda>r. r(''parent_id'' := p, ''task_type_id'' := t, ''updated_at'' := stamp)) (clickup_task d)"
proof (cases "updateTaskRelationships columns taskId
                (Obj [(u ''parent_id'', get (projr (fst (getTaskDetails http))) (u ''parent'')),
                      (u ''custom_type'',
                       get_opt (get (projr (fst (getTaskDetails http))) (u ''custom_type'')) (u ''name'')),
                      (u ''updated_at'', Str tm)]) stamp d")
  case (Pair r dd)
  from updateTaskRelationships_tasks [OF Pair] assms Pair show ?thesis
    by (auto simp: syncTaskRelationships_def split: sum.splits if_splits)
qed

lemma updateTaskField_tasks:
  assumes "updateTaskField taskId fieldName newValue stamp d = (res, d')"
  shows "clickup_task d' = clickup_task d \<or> clickup_task d' = update_where_id taskId
            (\<lambda>r. r(fieldName := param newValue, ''updated_at'' := stamp)) (clickup_task d)"
  using assms by (auto simp: updateTaskField_def Let_def split: if_splits option.splits)

text \<open>
  C4, corrected. The field-data update leaves \<^verbatim>\<open>_airbyte_raw_id\<close> of every row as it
  was, and sets \<^verbatim>\<open>_airbyte_extracted_at\<close> of the task's row to the current timestamp,
  leaving that of every other row. No other operation changes either column of a row
  that is there: the catalogue refresh changes no task row; the type link, the
  relationship update and \<^verbatim>\<open>syncTaskRelationships\<close> change neither column; the
  retention sweep deletes rows and leaves the rows it keeps as they were; and the
  ledger helper \<^verbatim>\<open>updateTaskField\<close>, which the module does not export and nothing
  calls, changes only \<^verbatim>\<open>updated_at\<close> and the column it is given. Over a whole run of
  \<^verbatim>\<open>syncTaskCustomFields\<close> every row that was there keeps its \<^verbatim>\<open>_airbyte_raw_id\<close>,
  and the rows of other tasks are left entirely as they were.
\<close>

theorem provenance_tag_kept_extraction_time_refreshed:
  "(\<forall>res d'. updateTaskCustomFields taskId fd now d = (res, d') \<longrightarrow>
      map (\<lambda>r. r ''_airbyte_raw_id'') (clickup_task d') = map (\<lambda>r. r ''_airbyte_raw_id'') (clickup_task d)
      \<and> map (\<lambda>r. r ''_airbyte_extracted_at'') (clickup_task d')
          = map (\<lambda>r. if r ''id'' = Str taskId then now else r ''_airbyte_extracted_at'') (clickup_task d))
   \<and> (\<forall>res d'. syncTaskTypes e d = (res, d') \<longrightarrow> clickup_task d' = clickup_task d)
   \<and> (\<forall>typeId res d'. updateTaskTypeRelationships taskId typeId d = (res, d') \<longrightarrow>
      map (\<lambda>r. r ''_airbyte_raw_id'') (clickup_task d') = map (\<lambda>r. r ''_airbyte_raw_id'') (clickup_task d)
      \<and> map (\<lambda>r. r ''_airbyte_extracted_at'') (clickup_task d')
          = map (\<lambda>r. r ''_airbyte_extracted_at'') (clickup_task d))
   \<and> (\<forall>res d'. syncTaskCustomFields e (\<lambda>d. d) taskId d = (res, d') \<longrightarrow>
      take (length (clickup_task d)) (map (\<lambda>r. r ''_airbyte_raw_id'') (clickup_task d'))
          = map (\<lambda>r. r ''_airbyte_raw_id'') (clickup_task d)
      \<and> filter (\<lambda>r. r ''id'' \<noteq> Str taskId) (clickup_task d')
          = filter (\<lambda>r. r ''id'' \<noteq> Str taskId) (clickup_task d))
   \<and> (\<forall>columns rel stamp res d'. updateTaskRelationships columns taskId rel stamp d = (res, d') \<longrightarrow>
      map (\<lambda>r. r ''_airbyte_raw_id'') (clickup_task d') = map (\<lambda>r. r ''_airbyte_raw_id'') (clickup_task d)
      \<and> map (\<lambda>r. r ''_airbyte_extracted_at'') (clickup_task d')
          = map (\<lambda>r. r ''_airbyte_extracted_at'') (clickup_task d))
   \<and> (\<forall>http columns tm stamp res d'.
        syncTaskRelationships http columns taskId tm stamp d = (res, d') \<longrightarrow>
      map (\<lambda>r. r ''_airbyte_raw_id'') (clickup_task d') = map (\<lambda>r. r ''_airbyte_raw_id'') (clickup_task d)
      \<and> map (\<lambda>r. r ''_airbyte_extracted_at'') (clickup_task d')
          = map (\<lambda>r. r ''_airbyte_extracted_at'') (clickup_task d))
   \<and> (\<forall>expired. clickup_task (cleanOldData expired d)
          = filter (\<lambda>r. \<not> expired (r ''updated_at'')) (clickup_task d))
   \<and> (\<forall>fieldName newValue stamp res d'.
        updateTaskField taskId fieldName newValue stamp d = (res, d')
        \<and> fieldName \<noteq> ''_airbyte_raw_id'' \<and> fieldName \<noteq> ''_airbyte_extracted_at'' \<longrightarrow>
      map (\<lambda>r. r ''_airbyte_raw_id'') (clickup_task d') = map (\<lambda>r. r ''_airbyte_raw_id'') (clickup_task d)
      \<and> map (\<lambda>r. r ''_airbyte_extracted_at'') (clickup_task d')
          = map (\<lambda>r. r ''_airbyte_extracted_at'') (clickup_task d))"
proof (intro conjI allI impI)
  fix res d'
  assume "updateTaskCustomFields taskId fd now d = (res, d')"
  then have t: "clickup_task d' = update_where_id taskId (field_data_assignment fd now) (clickup_task d)"
    by (rule updateTaskCustomFields_tasks)
  show "map (\<lambda>r. r ''_airbyte_raw_id'') (clickup_task d') = map (\<lambda>r. r ''_airbyte_raw_id'') (clickup_task d)"
    unfolding t map_update_where_id
    by (rule map_cong) (auto simp: field_data_assignment_def)
  show "map (\<lambda>r. r ''_airbyte_extracted_at'') (clickup_task d')
          = map (\<lambda>r. if r ''id'' = Str taskId then now else r ''_airbyte_extracted_at'') (clickup_task d)"
    unfolding t map_update_where_id
    by (rule map_cong) (auto simp: field_data_assignment_def)
next
  fix res d'
  assume "syncTaskTypes e d = (res, d')"
  then show "clickup_task d' = clickup_task d" by (rule syncTaskTypes_tasks)
next
  fix typeId res d'
  assume a: "updateTaskTypeRelationships taskId typeId d = (res, d')"
  from updateTaskTypeRelationships_tasks [OF a]
  show "map (\<lambda>r. r ''_airbyte_raw_id'') (clickup_task d') = map (\<lambda>r. r ''_airbyte_raw_id'') (clickup_task d)"
    by (auto simp: map_update_where_id)
  from updateTaskTypeRelationships_tasks [OF a]
  show "map (\<lambda>r. r ''_airbyte_extracted_at'') (clickup_task d')
          = map (\<lambda>r. r ''_airbyte_extracted_at'') (clickup_task d)"
    by (auto simp: map_update_where_id)
next
  fix res d'
  assume a: "syncTaskCustomFields e (\<lambda>d. d) taskId d = (res, d')"
  have "\<exists>g rows. (\<forall>r. g r ''id'' = r ''id'' \<and> g r ''_airbyte_raw_id'' = r ''_airbyte_raw_id'')
          \<and> (\<forall>p \<in> set rows. p ''id'' = Str taskId)
          \<and> clickup_task d' = update_where_id taskId g (clickup_task d @ rows)"
    using a
  proof (cases rule: sync_cases)
    case untouched
    then show ?thesis
      by (intro exI [of _ "\<lambda>r. r"] exI [of _ "[]"]) (simp add: update_where_id_ident)
  next
    case (run det)
    let ?rows = "if checkTaskExists taskId d then [] else [placeholder_row e taskId det]"
    from sync_existing_table [OF run(2)] obtain f
      where f: "\<forall>r c. c \<noteq> ''task_type_id'' \<and> c \<noteq> ''task_type_name'' \<longrightarrow> f r c = r c"
        and t: "(\<exists>fd. clickup_task d' = update_where_id taskId
                   (\<lambda>r. field_data_assignment fd (ts_update e) (f r)) (clickup_task d @ ?rows))
                \<or> clickup_task d' = update_where_id taskId f (clickup_task d @ ?rows)"
      by (auto split: if_splits)
    from t show ?thesis
    proof
      assume "\<exists>fd. clickup_task d' = update_where_id taskId
                   (\<lambda>r. field_data_assignment fd (ts_update e) (f r)) (clickup_task d @ ?rows)"
      then obtain fd where "clickup_task d' = update_where_id taskId
                   (\<lambda>r. field_data_assignment fd (ts_update e) (f r)) (clickup_task d @ ?rows)" ..
      with f show ?thesis
        by (intro exI [of _ "\<lambda>r. field_data_assignment fd (ts_update e) (f r)"] exI [of _ ?rows])
          (simp add: field_data_assignment_def placeholder_row_def)
    next
      assume "clickup_task d' = update_where_id taskId f (clickup_task d @ ?rows)"
      with f show ?thesis
        by (intro exI [of _ f] exI [of _ ?rows]) (simp add: placeholder_row_def)
    qed
  qed
  then obtain g rows where g: "\<And>r. g r ''id'' = r ''id''" "\<And>r. g r ''_airbyte_raw_id'' = r ''_airbyte_raw_id''"
    and rows: "\<forall>p \<in> set rows. p ''id'' = Str taskId"
    and t: "clickup_task d' = update_where_id taskId g (clickup_task d @ rows)" by auto
  show "take (length (clickup_task d)) (map (\<lambda>r. r ''_airbyte_raw_id'') (clickup_task d'))
          = map (\<lambda>r. r ''_airbyte_raw_id'') (clickup_task d)"
    unfolding t by (simp add: update_where_id_def g)
  show "filter (\<lambda>r. r ''id'' \<noteq> Str taskId) (clickup_task d')
          = filter (\<lambda>r. r ''id'' \<noteq> Str taskId) (clickup_task d)"
    unfolding t using rows by (simp add: update_where_id_filter [of g, OF g(1)])
next
  fix columns rel stamp res d'
  assume a: "updateTaskRelationships columns taskId rel stamp d = (res, d')"
  from updateTaskRelationships_tasks [OF a]
  show "map (\<lambda>r. r ''_airbyte_raw_id'') (clickup_task d') = map (\<lambda>r. r ''_airbyte_raw_id'') (clickup_task d)"
    by (auto simp: map_update_where_id)
  from updateTaskRelationships_tasks [OF a]
  show "map (\<lambda>r. r ''_airbyte_extracted_at'') (clickup_task d')
          = map (\<lambda>r. r ''_airbyte_extracted_at'') (clickup_task d)"
    by (auto simp: map_update_where_id)
next
  fix http columns tm stamp res d'
  assume a: "syncTaskRelationships http columns taskId tm stamp d = (res, d')"
  from syncTaskRelationships_tasks [OF a]
  show "map (\<lambda>r. r ''_airbyte_raw_id'') (clickup_task d') = map (\<lambda>r. r ''_airbyte_raw_id'') (clickup_task d)"
    by (auto simp: map_update_where_id)
  from syncTaskRelationships_tasks [OF a]
  show "map (\<lambda>r. r ''_airbyte_extracted_at'') (clickup_task d')
          = map (\<lambda>r. r ''_airbyte_extracted_at'') (clickup_task d)"
    by (auto simp: map_update_where_id)
next
  fix expired
  show "clickup_task (cleanOldData expired d)
          = filter (\<lambda>r. \<not> expired (r ''updated_at'')) (clickup_task d)"
    by (simp add: cleanOldData_def Let_def)
next
  fix fieldName newValue stamp res d'
  assume a: "updateTaskField taskId fieldName newValue stamp d = (res, d')
        \<and> fieldName \<noteq> ''_airbyte_raw_id'' \<and> fieldName \<noteq> ''_airbyte_extracted_at''"
  then have t: "clickup_task d' = clickup_task d \<or> clickup_task d' = update_where_id taskId
            (\<lambda>r. r(fieldName := param newValue, ''updated_at'' := stamp)) (clickup_task d)"
    by (rule_tac updateTaskField_tasks) simp
  from t a
  show "map (\<lambda>r. r ''_airbyte_raw_id'') (clickup_task d') = map (\<lambda>r. r ''_airbyte_raw_id'') (clickup_task d)"
    by (auto simp: map_update_where_id)
  from t a
  show "map (\<lambda>r. r ''_airbyte_extracted_at'') (clickup_task d')
          = map (\<lambda>r. r ''_airbyte_extracted_at'') (clickup_task d)"
    by (auto simp: map_update_where_id)
qed

lemma demo_sync_imported_id:
  "syncTaskCustomFields (demo_env nm) id (u ''t1'') demo_db =
     (SyncOk (Some (synced nm imported_row)),
      \<lparr>clickup_task = [synced nm imported_row], task_types = [demo_type], field_changes = []\<rparr>)"
  using demo_sync_imported [of nm] by (simp add: id_def)

lemma demo_rows: "clickup_task demo_db = [imported_row]"
  by (simp add: demo_db_def)

text \<open>
  C4 as first stated fails on the run on the imported row: the row is the one that was
  there, and its \<^verbatim>\<open>_airbyte_extracted_at\<close> is no longer the importer's.
\<close>

theorem extraction_time_overwritten_counterexample:
  "length (clickup_task demo_db) = 1
   \<and> length (clickup_task (snd (syncTaskCustomFields (demo_env (Str (u ''New''))) id (u ''t1'') demo_db))) = 1
   \<and> hd (clickup_task demo_db) ''id'' = Str (u ''t1'')
   \<and> hd (clickup_task (snd (syncTaskCustomFields (demo_env (Str (u ''New''))) id (u ''t1'') demo_db))) ''id''
        = Str (u ''t1'')
   \<and> hd (clickup_task demo_db) ''_airbyte_extracted_at'' = DateObj (Str (u ''2024-04-30T02:00:00.000Z'')) []
   \<and> hd (clickup_task (snd (syncTaskCustomFields (demo_env (Str (u ''New''))) id (u ''t1'') demo_db)))
         ''_airbyte_extracted_at'' = DateObj (Str (u ''2024-05-01T10:00:01.000Z'')) []
   \<and> hd (clickup_task (snd (syncTaskCustomFields (demo_env (Str (u ''New''))) id (u ''t1'') demo_db)))
         ''_airbyte_extracted_at'' \<noteq> hd (clickup_task demo_db) ''_airbyte_extracted_at''"
  unfolding demo_sync_imported_id
  by (simp add: demo_db_def imported_row_def synced_def linked_def field_data_assignment_def
      demo_clock)

theorem provenance_tag_kept_extraction_time_refreshed_witness:
  "syncTaskCustomFields (demo_env (Str (u ''New''))) (\<lambda>d. d) (u ''t1'') demo_db
     = (SyncOk (Some (synced (Str (u ''New'')) imported_row)),
        \<lparr>clickup_task = [synced (Str (u ''New'')) imported_row], task_types = [demo_type],
         field_changes = []\<rparr>)
   \<and> imported_row ''_airbyte_raw_id'' = Str (u ''raw-1'')
   \<and> synced (Str (u ''New'')) imported_row ''_airbyte_raw_id'' = Str (u ''raw-1'')
   \<and> fst (updateTaskRelationships (''parent_id'' # task_columns) (u ''t1'')
             (Obj [(u ''parent_id'', Null), (u ''custom_type'', Str (u ''Job''))])
             (DateObj (Str (u ''2024-05-01T10:00:02.000Z'')) []) demo_db)
       = Inr (Some (imported_row
                (''parent_id'' := Null, ''task_type_id'' := Null,
                 ''updated_at'' := DateObj (Str (u ''2024-05-01T10:00:02.000Z'')) [])))
   \<and> map (\<lambda>r. r ''_airbyte_raw_id'')
         (clickup_task (snd (updateTaskRelationships (''parent_id'' # task_columns) (u ''t1'')
             (Obj [(u ''parent_id'', Null), (u ''custom_type'', Str (u ''Job''))])
             (DateObj (Str (u ''2024-05-01T10:00:02.000Z'')) []) demo_db)))
       = [Str (u ''raw-1'')]
   \<and> map (\<lambda>r. r ''_airbyte_extracted_at'')
         (clickup_task (snd (updateTaskRelationships (''parent_id'' # task_columns) (u ''t1'')
             (Obj [(u ''parent_id'', Null), (u ''custom_type'', Str (u ''Job''))])
             (DateObj (Str (u ''2024-05-01T10:00:02.000Z'')) []) demo_db)))
       = [DateObj (Str (u ''2024-04-30T02:00:00.000Z'')) []]"
proof -
  let ?X = "updateTaskRelationships (''parent_id'' # task_columns) (u ''t1'')
             (Obj [(u ''parent_id'', Null), (u ''custom_type'', Str (u ''Job''))])
             (DateObj (Str (u ''2024-05-01T10:00:02.000Z'')) []) demo_db"
  note T = provenance_tag_kept_extraction_time_refreshed [of "u ''t1''" "demo_field_data Null" Null demo_db
      "demo_env (Str (u ''New''))"]
  have A: "syncTaskCustomFields (demo_env (Str (u ''New''))) (\<lambda>d. d) (u ''t1'') demo_db
     = (SyncOk (Some (synced (Str (u ''New'')) imported_row)),
        \<lparr>clickup_task = [synced (Str (u ''New'')) imported_row], task_types = [demo_type],
         field_changes = []\<rparr>)
   \<and> imported_row ''_airbyte_raw_id'' = Str (u ''raw-1'')
   \<and> synced (Str (u ''New'')) imported_row ''_airbyte_raw_id'' = Str (u ''raw-1'')"
    using T [THEN conjunct2, THEN conjunct2, THEN conjunct2, THEN conjunct1, rule_format,
      of "fst (syncTaskCustomFields (demo_env (Str (u ''New''))) (\<lambda>d. d) (u ''t1'') demo_db)"
         "snd (syncTaskCustomFields (demo_env (Str (u ''New''))) (\<lambda>d. d) (u ''t1'') demo_db)"]
    unfolding demo_sync_imported
    by (simp add: demo_rows imported_row_def)
  have found: "fst ?X = Inr (Some (imported_row
                (''parent_id'' := Null, ''task_type_id'' := Null,
                 ''updated_at'' := DateObj (Str (u ''2024-05-01T10:00:02.000Z'')) [])))"
    using demo_exists
    by (simp add: updateTaskRelationships_def Let_def nullish_def param_def demo_rows
        update_where_id_def demo_db_def imported_row_def)
  have B: "map (\<lambda>r. r ''_airbyte_raw_id'') (clickup_task (snd ?X)) = [Str (u ''raw-1'')]
     \<and> map (\<lambda>r. r ''_airbyte_extracted_at'') (clickup_task (snd ?X))
         = [DateObj (Str (u ''2024-04-30T02:00:00.000Z'')) []]"
    using T [THEN conjunct2, THEN conjunct2, THEN conjunct2, THEN conjunct2, THEN conjunct1,
      rule_format, of "''parent_id'' # task_columns"
        "Obj [(u ''parent_id'', Null), (u ''custom_type'', Str (u ''Job''))]"
        "DateObj (Str (u ''2024-05-01T10:00:02.000Z'')) []" "fst ?X" "snd ?X"]
    by (simp add: demo_rows imported_row_def)
  show ?thesis
    using A found B by blast
qed

section \<open>The placeholder row\<close>

lemma coalesce_same [simp]: "coalesce x x = x"
  by (simp add: coalesce_def)














section \<open>The catalogue refresh\<close>

lemma upsert_ids: "ty_id ` set (upsert r tt) = insert (ty_id r) (ty_id ` set tt)"
  by (induction tt) auto

lemma upsert_distinct: "distinct (map ty_id tt) \<Longrightarrow> distinct (map ty_id (upsert r tt))"
proof (induction tt)
  case Nil
  then show ?case by simp
next
  case (Cons x tt)
  then show ?case
    using upsert_ids [of r tt] by (auto simp: image_iff)
qed

lemma upsert_set:
  "distinct (map ty_id tt) \<Longrightarrow> set (upsert r tt) = insert r {x \<in> set tt. ty_id x \<noteq> ty_id r}"
proof (induction tt)
  case Nil
  then show ?case by simp
next
  case (Cons x tt)
  then show ?case by (auto simp: image_iff)
qed

lemma upsert_all_Cons:
  assumes "upsert_all e (t # ts) tt = Inr tt'"
  shows "upsert_all e ts (upsert (type_params e t) tt) = Inr tt'"
  using assms by (simp split: if_splits)

lemma upsert_all_distinct:
  "upsert_all e ts tt = Inr tt' \<Longrightarrow> distinct (map ty_id tt) \<Longrightarrow> distinct (map ty_id tt')"
proof (induction ts arbitrary: tt)
  case Nil
  then show ?case by simp
next
  case (Cons t ts)
  from Cons.IH [OF upsert_all_Cons [OF Cons.prems(1)] upsert_distinct [OF Cons.prems(2)]]
  show ?case .
qed

lemma upsert_all_rows:
  assumes "upsert_all e ts tt = Inr tt'" and "distinct (map ty_id tt)" and "r \<in> set tt'"
  shows "(r \<in> set tt \<and> ty_id r \<notin> (\<lambda>t. ty_id (type_params e t)) ` set ts)
         \<or> (\<exists>t \<in> set ts. r = type_params e t)"
  using assms
proof (induction ts arbitrary: tt)
  case Nil
  then show ?case by simp
next
  case (Cons t ts)
  from Cons.IH [OF upsert_all_Cons [OF Cons.prems(1)] upsert_distinct [OF Cons.prems(2)] Cons.prems(3)]
  show ?case
    by (auto simp: upsert_set [OF Cons.prems(2)])
qed

lemma upsert_all_keeps:
  assumes "upsert_all e ts tt = Inr tt'" and "distinct (map ty_id tt)" and "x \<in> set tt"
    and "ty_id x \<notin> (\<lambda>t. ty_id (type_params e t)) ` set ts"
  shows "x \<in> set tt'"
  using assms
proof (induction ts arbitrary: tt)
  case Nil
  then show ?case by simp
next
  case (Cons t ts)
  have "x \<in> set (upsert (type_params e t) tt)"
    using Cons.prems(3,4) by (auto simp: upsert_set [OF Cons.prems(2)])
  from Cons.IH [OF upsert_all_Cons [OF Cons.prems(1)] upsert_distinct [OF Cons.prems(2)] this]
    Cons.prems(4)
  show ?case by simp
qed

lemma upsert_all_ids:
  "upsert_all e ts tt = Inr tt' \<Longrightarrow>
     ty_id ` set tt' = ty_id ` set tt \<union> (\<lambda>t. ty_id (type_params e t)) ` set ts"
proof (induction ts arbitrary: tt)
  case Nil
  then show ?case by simp
next
  case (Cons t ts)
  from Cons.IH [OF upsert_all_Cons [OF Cons.prems(1)]]
  show ?case by (auto simp: upsert_ids)
qed

lemma upsert_all_fetched:
  assumes "upsert_all e ts tt = Inr tt'" and "distinct (map ty_id tt)"
    and "distinct (map (\<lambda>t. ty_id (type_params e t)) ts)" and "t \<in> set ts"
  shows "type_params e t \<in> set tt'"
  using assms
proof (induction ts arbitrary: tt)
  case Nil
  then show ?case by simp
next
  case (Cons a ts)
  note rest = upsert_all_Cons [OF Cons.prems(1)]
  note dist = upsert_distinct [OF Cons.prems(2), of "type_params e a"]
  show ?case
  proof (cases "t = a")
    case True
    have "type_params e a \<in> set (upsert (type_params e a) tt)"
      by (simp add: upsert_set [OF Cons.prems(2)])
    from upsert_all_keeps [OF rest dist this] Cons.prems(3) True
    show ?thesis by simp
  next
    case False
    with Cons.prems have "t \<in> set ts" "distinct (map (\<lambda>t. ty_id (type_params e t)) ts)" by auto
    from Cons.IH [OF rest dist this(2) this(1)] show ?thesis .
  qed
qed

lemma upsert_all_not_null:
  "upsert_all e ts tt = Inr tt' \<Longrightarrow> t \<in> set ts \<Longrightarrow> ty_id (type_params e t) \<noteq> Null"
proof (induction ts arbitrary: tt)
  case Nil
  then show ?case by simp
next
  case (Cons a ts)
  then show ?case by (auto split: if_splits)
qed

lemma syncTaskTypes_committed:
  assumes "syncTaskTypes e d = (Inr types, d')"
  obtains xs tt where "types = Arr xs" "getCustomTaskTypes (types_http e) = Inr (Arr xs)"
    "upsert_all e xs (task_types d) = Inr tt"
    "d' = d\<lparr>task_types := (if xs = [] then tt
              else filter (\<lambda>r. ty_id r \<in> (\<lambda>t. param (get t (u ''id''))) ` set xs) tt)\<rparr>"
  using assms
  by (auto simp: syncTaskTypes_def delete_types_not_in_def Let_def
      split: sum.splits jsval.splits if_splits)

lemma type_params_id:
  "ty_id (type_params e t) \<noteq> Null \<Longrightarrow> ty_id (type_params e t) = get t (u ''id'')"
  by (auto simp: type_params_def param_def split: if_splits)

text \<open>
  C6 as first stated fails on the refresh with an empty remote catalogue on a table that
  holds one type: it commits and the type is still there.
\<close>

theorem empty_catalogue_keeps_rows_counterexample:
  "getCustomTaskTypes (types_http empty_catalogue_env) = Inr (Arr [])
   \<and> syncTaskTypes empty_catalogue_env stale_db = (Inr (Arr []), stale_db)
   \<and> task_types (snd (syncTaskTypes empty_catalogue_env stale_db)) = [retired_type]
   \<and> task_types (snd (syncTaskTypes empty_catalogue_env stale_db)) \<noteq> []"
  by (simp add: syncTaskTypes_def getCustomTaskTypes_def empty_catalogue_env_def nullish_def
      or_else_def stale_db_def)

text \<open>
  C6, corrected. A refresh that throws leaves the storage as it was. A refresh that
  commits has fetched an array; it changes no task row and keeps the ids of the type
  table distinct. When the array is empty the type table is left as it was. When it is not
  empty, the ids of the table are then exactly the fetched ids, every row of the table
  holds the parameters of a fetched type, and, the fetched ids being distinct, the rows
  of the table are exactly the parameter rows of the fetched types.
\<close>

theorem catalogue_refresh:
  "(\<forall>err d'. syncTaskTypes e d = (Inl err, d') \<longrightarrow> d' = d)
   \<and> (\<forall>types d'. syncTaskTypes e d = (Inr types, d') \<and> distinct (map ty_id (task_types d)) \<longrightarrow>
        (\<exists>xs. types = Arr xs \<and> getCustomTaskTypes (types_http e) = Inr (Arr xs)
           \<and> clickup_task d' = clickup_task d
           \<and> distinct (map ty_id (task_types d'))
           \<and> (xs = [] \<longrightarrow> task_types d' = task_types d)
           \<and> (xs \<noteq> [] \<longrightarrow>
                ty_id ` set (task_types d') = (\<lambda>t. get t (u ''id'')) ` set xs
                \<and> (\<forall>r \<in> set (task_types d'). \<exists>t \<in> set xs. r = type_params e t)
                \<and> (distinct (map (\<lambda>t. get t (u ''id'')) xs)
                     \<longrightarrow> set (task_types d') = type_params e ` set xs))))"
proof (intro conjI allI impI)
  fix err d'
  assume "syncTaskTypes e d = (Inl err, d')"
  then show "d' = d" by (rule syncTaskTypes_failed)
next
  fix types d'
  assume a: "syncTaskTypes e d = (Inr types, d') \<and> distinct (map ty_id (task_types d))"
  then have dist: "distinct (map ty_id (task_types d))" by simp
  from a obtain xs tt where types: "types = Arr xs"
    and fetch: "getCustomTaskTypes (types_http e) = Inr (Arr xs)"
    and ups: "upsert_all e xs (task_types d) = Inr tt"
    and d': "d' = d\<lparr>task_types := (if xs = [] then tt
              else filter (\<lambda>r. ty_id r \<in> (\<lambda>t. param (get t (u ''id''))) ` set xs) tt)\<rparr>"
    by (auto elim: syncTaskTypes_committed)
  let ?F = "(\<lambda>t. param (get t (u ''id''))) ` set xs"
  have F: "?F = (\<lambda>t. ty_id (type_params e t)) ` set xs"
    by (simp add: type_params_def)
  have ids: "\<And>t. t \<in> set xs \<Longrightarrow> ty_id (type_params e t) = get t (u ''id'')"
    using upsert_all_not_null [OF ups] by (auto intro: type_params_id)
  have F': "?F = (\<lambda>t. get t (u ''id'')) ` set xs"
    unfolding F using ids by (auto simp: image_iff)
  have dtt: "distinct (map ty_id tt)"
    using upsert_all_distinct [OF ups dist] .
  have empty: "task_types d' = task_types d" if "xs = []"
    using that ups d' by simp
  have full: "task_types d' = filter (\<lambda>r. ty_id r \<in> ?F) tt" if "xs \<noteq> []"
    using that d' by simp
  have p1: "ty_id ` set (task_types d') = (\<lambda>t. get t (u ''id'')) ` set xs" if "xs \<noteq> []"
  proof -
    have "ty_id ` set (filter (\<lambda>r. ty_id r \<in> ?F) tt) = ty_id ` set tt \<inter> ?F"
      by auto
    also have "\<dots> = ?F"
      unfolding upsert_all_ids [OF ups] F by auto
    finally show ?thesis
      unfolding full [OF that] F' .
  qed
  have p2: "\<exists>t \<in> set xs. r = type_params e t" if "xs \<noteq> []" "r \<in> set (task_types d')" for r
    using that(2) upsert_all_rows [OF ups dist, of r] unfolding full [OF that(1)] F by auto
  have p3: "set (task_types d') = type_params e ` set xs"
    if "xs \<noteq> []" "distinct (map (\<lambda>t. get t (u ''id'')) xs)"
  proof -
    have "map (\<lambda>t. ty_id (type_params e t)) xs = map (\<lambda>t. get t (u ''id'')) xs"
      by (rule map_cong) (simp_all add: ids)
    with that(2) have dx: "distinct (map (\<lambda>t. ty_id (type_params e t)) xs)"
      by (simp only:)
    show ?thesis
    proof (intro equalityI subsetI)
      fix r assume "r \<in> set (task_types d')"
      with p2 [OF that(1)] show "r \<in> type_params e ` set xs" by auto
    next
      fix r assume "r \<in> type_params e ` set xs"
      then obtain t where t: "t \<in> set xs" "r = type_params e t" by auto
      from upsert_all_fetched [OF ups dist dx t(1)] t
      show "r \<in> set (task_types d')"
        unfolding full [OF that(1)] F by auto
    qed
  qed
  have dd: "distinct (map ty_id (task_types d'))"
    using dtt dist empty full by (cases "xs = []") (simp_all add: distinct_map_filter)
  show "\<exists>xs. types = Arr xs \<and> getCustomTaskTypes (types_http e) = Inr (Arr xs)
           \<and> clickup_task d' = clickup_task d
           \<and> distinct (map ty_id (task_types d'))
           \<and> (xs = [] \<longrightarrow> task_types d' = task_types d)
           \<and> (xs \<noteq> [] \<longrightarrow>
                ty_id ` set (task_types d') = (\<lambda>t. get t (u ''id'')) ` set xs
                \<and> (\<forall>r \<in> set (task_types d'). \<exists>t \<in> set xs. r = type_params e t)
                \<and> (distinct (map (\<lambda>t. get t (u ''id'')) xs)
                     \<longrightarrow> set (task_types d') = type_params e ` set xs))"
    using types fetch d' dd empty p1 p2 p3
    by (intro exI [of _ xs]) auto
qed

lemma demo_refresh_stale:
  "syncTaskTypes (demo_env nm) stale_db
     = (Inr (Arr [Obj [(u ''id'', Str (u ''ty1'')), (u ''name'', Str (u ''Job''))]]),
        \<lparr>clickup_task = [], task_types = [demo_type], field_changes = []\<rparr>)"
  by (simp add: syncTaskTypes_def getCustomTaskTypes_def nullish_def or_else_def type_params_def
      param_def delete_types_not_in_def demo_type_def stale_db_def retired_type_def)

theorem catalogue_refresh_witness:
  "syncTaskTypes (demo_env Null) stale_db
     = (Inr (Arr [Obj [(u ''id'', Str (u ''ty1'')), (u ''name'', Str (u ''Job''))]]),
        \<lparr>clickup_task = [], task_types = [demo_type], field_changes = []\<rparr>)
   \<and> distinct (map ty_id (task_types stale_db))
   \<and> ty_id ` set (task_types stale_db) = {Str (u ''ty0'')}
   \<and> ty_id ` set [demo_type] = {Str (u ''ty1'')}
   \<and> set [demo_type] = type_params (demo_env Null) ` {Obj [(u ''id'', Str (u ''ty1'')), (u ''name'', Str (u ''Job''))]}"
  using catalogue_refresh [of "demo_env Null" stale_db, THEN conjunct2, rule_format,
      of "Arr [Obj [(u ''id'', Str (u ''ty1'')), (u ''name'', Str (u ''Job''))]]"
         "\<lparr>clickup_task = [], task_types = [demo_type], field_changes = []\<rparr>"]
    demo_refresh_stale [of Null]
  by (simp add: stale_db_def retired_type_def)

section \<open>The change ledger\<close>

lemma creator_current:
  "(case getTaskById (u ''t1'') creator_db of None \<Rightarrow> Undefined | Some r \<Rightarrow> r ''creator'')
     = Obj [(u ''id'', Num 7), (u ''username'', Str (u ''ann''))]"
  by (simp add: getTaskById_def creator_db_def creator_row_def imported_row_def)

text \<open>
  C8 as first stated fails on a stored \<^verbatim>\<open>creator\<close> and a new value that are equal
  up to the order of their keys: the helper records a change.
\<close>

theorem reordered_keys_recorded_counterexample:
  "structurally_equal (creator_row ''creator'') creator_reordered
   \<and> getTaskById (u ''t1'') creator_db = Some creator_row
   \<and> field_changes creator_db = []
   \<and> field_changes (snd (updateTaskField (u ''t1'') ''creator'' creator_reordered Null creator_db))
       = [\<lparr>ch_task_id = Str (u ''t1''), ch_field_name = ''creator'',
           ch_old_value = Some (Obj [(u ''id'', Num 7), (u ''username'', Str (u ''ann''))]),
           ch_new_value = Some (Obj [(u ''username'', Str (u ''ann'')), (u ''id'', Num 7)])\<rparr>]"
proof -
  have 1: "structurally_equal (creator_row ''creator'') creator_reordered"
    by (simp add: structurally_equal_def creator_row_def creator_reordered_def u_def)
  have 2: "getTaskById (u ''t1'') creator_db = Some creator_row"
    by (simp add: getTaskById_def creator_db_def creator_row_def imported_row_def)
  have 3: "field_changes (snd (updateTaskField (u ''t1'') ''creator'' creator_reordered Null creator_db))
       = [\<lparr>ch_task_id = Str (u ''t1''), ch_field_name = ''creator'',
           ch_old_value = Some (Obj [(u ''id'', Num 7), (u ''username'', Str (u ''ann''))]),
           ch_new_value = Some (Obj [(u ''username'', Str (u ''ann'')), (u ''id'', Num 7)])\<rparr>]"
    unfolding updateTaskField_def creator_current
    by (simp add: creator_reordered_def Let_def creator_db_def split: option.splits)
  show ?thesis
    using 1 2 3 by (simp add: creator_db_def)
qed

text \<open>
  C8, corrected. The helper compares the serialisations of the stored value and of the
  new value. When they differ it appends exactly one ledger record, which carries both
  serialisations, and then updates the column, unless the update raises; when they are
  equal it leaves the storage as it was and raises nothing.
\<close>

theorem updateTaskField_ledger:
  "(\<forall>cur err d'.
       cur = (case getTaskById taskId d of None \<Rightarrow> Undefined | Some r \<Rightarrow> r fieldName)
       \<and> updateTaskField taskId fieldName newValue now d = (err, d') \<longrightarrow>
       (json_doc cur \<noteq> json_doc newValue \<longrightarrow>
          field_changes d' = field_changes d @
            [\<lparr>ch_task_id = Str taskId, ch_field_name = fieldName,
              ch_old_value = json_doc cur, ch_new_value = json_doc newValue\<rparr>]
          \<and> task_types d' = task_types d
          \<and> (err = None \<longrightarrow> clickup_task d' = update_where_id taskId
                 (\<lambda>r. r(fieldName := param newValue, ''updated_at'' := now)) (clickup_task d))
          \<and> (err \<noteq> None \<longrightarrow> clickup_task d' = clickup_task d))
       \<and> (json_doc cur = json_doc newValue \<longrightarrow> d' = d \<and> err = None))"
  by (auto simp: updateTaskField_def Let_def split: option.splits)

lemma name_current:
  "(case getTaskById (u ''t1'') demo_db of None \<Rightarrow> Undefined | Some r \<Rightarrow> r ''name'') = Str (u ''Old'')"
  by (simp add: getTaskById_def demo_db_def imported_row_def)

theorem updateTaskField_ledger_witness:
  "field_changes (snd (updateTaskField (u ''t1'') ''name'' (Str (u ''New'')) Null demo_db))
     = [\<lparr>ch_task_id = Str (u ''t1''), ch_field_name = ''name'',
         ch_old_value = Some (Str (u ''Old'')), ch_new_value = Some (Str (u ''New''))\<rparr>]
   \<and> updateTaskField (u ''t1'') ''name'' (Str (u ''Old'')) Null demo_db = (None, demo_db)"
  using updateTaskField_ledger [where taskId = "u ''t1''" and d = demo_db and fieldName = "''name''"
        and newValue = "Str (u ''New'')" and now = Null,
      rule_format, of "Str (u ''Old'')"
        "fst (updateTaskField (u ''t1'') ''name'' (Str (u ''New'')) Null demo_db)"
        "snd (updateTaskField (u ''t1'') ''name'' (Str (u ''New'')) Null demo_db)"]
    updateTaskField_ledger [where taskId = "u ''t1''" and d = demo_db and fieldName = "''name''"
        and newValue = "Str (u ''Old'')" and now = Null,
      rule_format, of "Str (u ''Old'')"
        "fst (updateTaskField (u ''t1'') ''name'' (Str (u ''Old'')) Null demo_db)"
        "snd (updateTaskField (u ''t1'') ''name'' (Str (u ''Old'')) Null demo_db)"]
    name_current
  by (simp add: demo_db_def prod_eq_iff)

section \<open>Running the sync twice\<close>





























end
